theory Spec2Isabelle
  imports Main "HOL-Library.Word"
begin

section \<open>Machine sizes and pointers\<close>

text \<open>
  \<^verbatim>\<open>using size_type = decltype(sizeof 0);\<close> is the platform's \<^verbatim>\<open>size_t\<close>: an unsigned
  64-bit integer on the platforms the repository's tests target (they write the largest
  count as \<^verbatim>\<open>~0ull\<close>). All arithmetic on it wraps around. A pointer is a byte address of
  the same width; the null pointer is address 0, and \<^verbatim>\<open>T*\<close> arithmetic \<^verbatim>\<open>p + i\<close> moves by
  \<^verbatim>\<open>i * sizeof(T)\<close> bytes.
\<close>

type_synonym size_type = "64 word"
type_synonym ptr = "64 word"

definition PAGE_SIZE :: size_type where
  "PAGE_SIZE = 4096"

definition SIZE_TYPE_MAX :: size_type where
  "SIZE_TYPE_MAX = not 0"

definition ceil_multiple :: "size_type \<Rightarrow> size_type \<Rightarrow> size_type" where
  "ceil_multiple sz n = (sz div n + (if sz mod n \<noteq> 0 then 1 else 0)) * n"

definition add_overflows :: "size_type \<Rightarrow> size_type \<Rightarrow> bool" where
  "add_overflows a b = (SIZE_TYPE_MAX - b < a)"

section \<open>The operating system boundary\<close>

text \<open>
  \<^verbatim>\<open>mmap\<close> and \<^verbatim>\<open>munmap\<close> are not code of the repository. Their outcomes are parameters:
  each may depend on everything the process has asked of the operating system so far,
  which the model keeps as a trace of the calls that succeeded. The POSIX branch of
  \<^verbatim>\<open>ovector.cpp\<close> is the one modelled.
\<close>

datatype os_event =
    Reserve ptr size_type   \<comment> \<open>anonymous read/write mapping: base, length\<close>
  | Guard ptr size_type     \<comment> \<open>\<^verbatim>\<open>PROT_NONE\<close> mapping fixed at an address: start, length\<close>
  | Release ptr size_type   \<comment> \<open>\<^verbatim>\<open>munmap\<close>: base, length\<close>

record os =
  mmap_anon :: "os_event list \<Rightarrow> size_type \<Rightarrow> ptr option"
    \<comment> \<open>\<^verbatim>\<open>mmap(nullptr, len, PROT_READ | PROT_WRITE, ...)\<close>; \<open>None\<close> is \<^verbatim>\<open>MAP_FAILED\<close>\<close>
  mmap_fixed :: "os_event list \<Rightarrow> ptr \<Rightarrow> size_type \<Rightarrow> bool"
    \<comment> \<open>\<^verbatim>\<open>mmap(addr, len, PROT_NONE, MAP_FIXED | ...)\<close> did not fail\<close>
  munmap :: "os_event list \<Rightarrow> ptr \<Rightarrow> size_type \<Rightarrow> bool"
    \<comment> \<open>\<^verbatim>\<open>munmap(addr, len)\<close> did not return -1\<close>

text \<open>
  The process ends and nothing is returned: \<open>Fatal\<close> when \<^verbatim>\<open>fatal_error\<close> prints its message and
  calls \<^verbatim>\<open>std::terminate\<close>, \<open>Terminate\<close> when an exception leaves a function declared
  \<^verbatim>\<open>noexcept\<close> and the runtime calls \<^verbatim>\<open>std::terminate\<close>.
\<close>

datatype fatal = Fatal string | Terminate

definition os_guarded_alloc ::
  "os \<Rightarrow> os_event list \<Rightarrow> size_type \<Rightarrow> size_type \<Rightarrow> fatal + ptr \<times> os_event list" where
  "os_guarded_alloc sys tr dataSize guardSize =
     (case mmap_anon sys tr (dataSize + guardSize) of
        None \<Rightarrow> Inr (0, tr)
      | Some mem \<Rightarrow>
          (let tr1 = tr @ [Reserve mem (dataSize + guardSize)] in
           if \<not> mmap_fixed sys tr1 (mem + dataSize) guardSize
           then Inl (Fatal ''failed to enable guard page'')
           else Inr (mem, tr1 @ [Guard (mem + dataSize) guardSize])))"

definition os_dealloc ::
  "os \<Rightarrow> os_event list \<Rightarrow> ptr \<Rightarrow> size_type \<Rightarrow> fatal + os_event list" where
  "os_dealloc sys tr mem len =
     (if \<not> munmap sys tr mem len then Inl (Fatal ''failed to unmap memory'')
      else Inr (tr @ [Release mem len]))"

section \<open>The guarded allocator\<close>

definition guarded_alloc ::
  "os \<Rightarrow> os_event list \<Rightarrow> size_type \<Rightarrow> size_type \<Rightarrow> fatal + ptr \<times> os_event list" where
  "guarded_alloc sys tr requestedDataSize requestedGuardSize =
     (if requestedDataSize = 0 then Inr (0, tr)
      else if requestedDataSize > SIZE_TYPE_MAX - PAGE_SIZE + 1
              \<or> requestedGuardSize > SIZE_TYPE_MAX - PAGE_SIZE + 1 then Inr (0, tr)
      else
        (let allocatedDataSize = ceil_multiple requestedDataSize PAGE_SIZE;
             allocatedGuardSize = ceil_multiple requestedGuardSize PAGE_SIZE
         in if add_overflows allocatedDataSize allocatedGuardSize then Inr (0, tr)
            else
              (case os_guarded_alloc sys tr allocatedDataSize allocatedGuardSize of
                 Inl f \<Rightarrow> Inl f
               | Inr (mem, tr') \<Rightarrow>
                   if mem = 0 then Inr (0, tr')
                   else
                     (let wastedSpace = allocatedDataSize - requestedDataSize
                      in Inr (mem + wastedSpace, tr')))))"

definition guarded_dealloc ::
  "os \<Rightarrow> os_event list \<Rightarrow> ptr \<Rightarrow> size_type \<Rightarrow> size_type \<Rightarrow> fatal + os_event list" where
  "guarded_dealloc sys tr mem requestedDataSize requestedGuardSize =
     (let allocatedDataSize = ceil_multiple requestedDataSize PAGE_SIZE;
          allocatedGuardSize = ceil_multiple requestedGuardSize PAGE_SIZE;
          wastedSpace = allocatedDataSize - requestedDataSize;
          allocatedMemory = mem - wastedSpace
      in os_dealloc sys tr allocatedMemory (allocatedDataSize + allocatedGuardSize))"

section \<open>Container objects, element objects and the world they live in\<close>

text \<open>
  \<^verbatim>\<open>ovector_storage<T>\<close> has three members. An \<^verbatim>\<open>ovector<T>\<close> has no member but its
  storage, so a container object is its storage record. The member \<^verbatim>\<open>size\<close> is called
  \<open>size_m\<close> here, \<open>size\<close> being a constant of HOL. The accessors \<^verbatim>\<open>data()\<close>, \<^verbatim>\<open>size()\<close> and
  \<^verbatim>\<open>max_size()\<close> return the three members as they are.
\<close>

record ovector_storage =
  memory :: ptr
  size_m :: size_type
  max_size :: size_type

text \<open>
  What the code knows of the element type \<^verbatim>\<open>T\<close>: \<^verbatim>\<open>sizeof(T)\<close> and
  \<^verbatim>\<open>std::is_trivially_destructible<T>::value\<close>.
\<close>

record traits =
  sizeof_T :: size_type
  trivially_destructible :: bool

text \<open>
  Member functions take their containers by reference, and two references may name the
  same object (\<^verbatim>\<open>x = std::move(x)\<close>), so container objects live in a store indexed by
  their identity. \<open>live\<close> is the set of container objects constructed and not yet destroyed,
  \<open>objs\<close> the element objects by address, \<open>dtor_log\<close> the addresses on which \<^verbatim>\<open>~T()\<close> was
  invoked, in order, and \<open>os_trace\<close> the calls the operating system has granted.
\<close>

type_synonym vid = nat

record 'a world =
  vecs :: "vid \<Rightarrow> ovector_storage"
  live :: "vid set"
  objs :: "ptr \<Rightarrow> 'a option"
  dtor_log :: "ptr list"
  os_trace :: "os_event list"

definition set_memory :: "vid \<Rightarrow> ptr \<Rightarrow> 'a world \<Rightarrow> 'a world" where
  "set_memory a p w = w\<lparr>vecs := (vecs w)(a := (vecs w a)\<lparr>memory := p\<rparr>)\<rparr>"

definition set_size :: "vid \<Rightarrow> size_type \<Rightarrow> 'a world \<Rightarrow> 'a world" where
  "set_size a n w = w\<lparr>vecs := (vecs w)(a := (vecs w a)\<lparr>size_m := n\<rparr>)\<rparr>"

definition set_max_size :: "vid \<Rightarrow> size_type \<Rightarrow> 'a world \<Rightarrow> 'a world" where
  "set_max_size a n w = w\<lparr>vecs := (vecs w)(a := (vecs w a)\<lparr>max_size := n\<rparr>)\<rparr>"

text \<open>
  \<^verbatim>\<open>inlined_exchange(ref, value)\<close> on a member of the container \<open>b\<close>: read the member, store
  \<open>value\<close> in it, return what was read. \<^verbatim>\<open>inlined_swap(lhs, rhs)\<close> on the same member of two
  containers goes through a temporary.
\<close>

definition inlined_exchange ::
  "(ovector_storage \<Rightarrow> 'f) \<Rightarrow> (vid \<Rightarrow> 'f \<Rightarrow> 'a world \<Rightarrow> 'a world) \<Rightarrow> vid \<Rightarrow> 'f \<Rightarrow> 'a world
     \<Rightarrow> 'f \<times> 'a world" where
  "inlined_exchange get put b v w = (let tmp = get (vecs w b); w1 = put b v w in (tmp, w1))"

definition inlined_swap ::
  "(ovector_storage \<Rightarrow> 'f) \<Rightarrow> (vid \<Rightarrow> 'f \<Rightarrow> 'a world \<Rightarrow> 'a world) \<Rightarrow> vid \<Rightarrow> vid \<Rightarrow> 'a world
     \<Rightarrow> 'a world" where
  "inlined_swap get put a b w =
     (let tmp = get (vecs w a);
          w1 = put a (get (vecs w b)) w;
          w2 = put b tmp w1
      in w2)"

subsection \<open>The storage holder\<close>

definition storage_default :: "vid \<Rightarrow> 'a world \<Rightarrow> 'a world" where
  "storage_default a w =
     w\<lparr>vecs := (vecs w)(a := \<lparr>memory = 0, size_m = 0, max_size = 0\<rparr>)\<rparr>"

definition storage_sized ::
  "os \<Rightarrow> traits \<Rightarrow> vid \<Rightarrow> size_type \<Rightarrow> 'a world \<Rightarrow> fatal + 'a world" where
  "storage_sized sys T a n w =
     (case guarded_alloc sys (os_trace w) (n * sizeof_T T) (sizeof_T T) of
        Inl f \<Rightarrow> Inl f
      | Inr (mem, tr') \<Rightarrow>
          Inr (w\<lparr>vecs := (vecs w)(a := \<lparr>memory = mem, size_m = 0,
                                         max_size = (if mem \<noteq> 0 then n else 0)\<rparr>),
                 os_trace := tr'\<rparr>))"

definition storage_move_ctor :: "vid \<Rightarrow> vid \<Rightarrow> 'a world \<Rightarrow> 'a world" where
  "storage_move_ctor a other w =
     (let (m, w1) = inlined_exchange memory set_memory other 0 w;
          w2 = set_memory a m w1;
          (s, w3) = inlined_exchange size_m set_size other 0 w2;
          w4 = set_size a s w3;
          (c, w5) = inlined_exchange max_size set_max_size other 0 w4
      in set_max_size a c w5)"

definition deallocate :: "os \<Rightarrow> traits \<Rightarrow> vid \<Rightarrow> 'a world \<Rightarrow> fatal + 'a world" where
  "deallocate sys T a w =
     (if memory (vecs w a) \<noteq> 0
      then (case guarded_dealloc sys (os_trace w) (memory (vecs w a))
                   (max_size (vecs w a) * sizeof_T T) (sizeof_T T) of
              Inl f \<Rightarrow> Inl f
            | Inr tr' \<Rightarrow> Inr (w\<lparr>os_trace := tr'\<rparr>))
      else Inr w)"

text \<open>
  \<^verbatim>\<open>inlined_move\<close> is declared with the return type \<^verbatim>\<open>auto\<close>, so it returns by value:
  \<^verbatim>\<open>inlined_move(other._storage)\<close> is a temporary \<^verbatim>\<open>ovector_storage\<close>, move-constructed from
  \<^verbatim>\<open>other._storage\<close> by the move constructor of the storage (the three exchanges, which
  leave \<^verbatim>\<open>other._storage\<close> null). The temporary is no container object of the store: it is
  a value, bound to the parameter of the move assignment operator and destroyed at the end
  of the full expression.
\<close>

definition inlined_move_storage :: "vid \<Rightarrow> 'a world \<Rightarrow> ovector_storage \<times> 'a world" where
  "inlined_move_storage other w =
     (let (m, w1) = inlined_exchange memory set_memory other 0 w;
          (s, w2) = inlined_exchange size_m set_size other 0 w1;
          (c, w3) = inlined_exchange max_size set_max_size other 0 w2
      in (\<lparr>memory = m, size_m = s, max_size = c\<rparr>, w3))"

text \<open>\<^verbatim>\<open>inlined_exchange(ref, value)\<close> on a member of a temporary storage \<open>t\<close>.\<close>

definition inlined_exchange_temp ::
  "(ovector_storage \<Rightarrow> 'f) \<Rightarrow> ('f \<Rightarrow> ovector_storage \<Rightarrow> ovector_storage) \<Rightarrow> 'f \<Rightarrow> ovector_storage
     \<Rightarrow> 'f \<times> ovector_storage" where
  "inlined_exchange_temp get put v t = (let tmp = get t; t1 = put v t in (tmp, t1))"

text \<open>
  \<^verbatim>\<open>ovector_storage::operator=(ovector_storage&& other)\<close> on the container \<open>a\<close>. Its one call
  site, \<^verbatim>\<open>ovector::operator=\<close>, binds \<open>other\<close> to the temporary above, which is handed back as
  the operator leaves it.
\<close>

definition storage_move_assign ::
  "os \<Rightarrow> traits \<Rightarrow> vid \<Rightarrow> ovector_storage \<Rightarrow> 'a world \<Rightarrow> fatal + ovector_storage \<times> 'a world" where
  "storage_move_assign sys T a other w =
     (case deallocate sys T a w of
        Inl f \<Rightarrow> Inl f
      | Inr w0 \<Rightarrow>
          (let (m, o1) = inlined_exchange_temp memory (\<lambda>v t. t\<lparr>memory := v\<rparr>) 0 other;
               w1 = set_memory a m w0;
               (s, o2) = inlined_exchange_temp size_m (\<lambda>v t. t\<lparr>size_m := v\<rparr>) 0 o1;
               w2 = set_size a s w1;
               (c, o3) = inlined_exchange_temp max_size (\<lambda>v t. t\<lparr>max_size := v\<rparr>) 0 o2
           in Inr (o3, set_max_size a c w2)))"

text \<open>\<^verbatim>\<open>~ovector_storage()\<close> on a temporary storage \<open>t\<close>: \<^verbatim>\<open>deallocate()\<close>.\<close>

definition storage_dtor_temp ::
  "os \<Rightarrow> traits \<Rightarrow> ovector_storage \<Rightarrow> os_event list \<Rightarrow> fatal + os_event list" where
  "storage_dtor_temp sys T t tr =
     (if memory t \<noteq> 0
      then guarded_dealloc sys tr (memory t) (max_size t * sizeof_T T) (sizeof_T T)
      else Inr tr)"

subsection \<open>The container\<close>

text \<open>\<^verbatim>\<open>p->~T()\<close>: the element object at \<open>p\<close> ends, and the call is logged.\<close>

definition destroy_at :: "ptr \<Rightarrow> 'a world \<Rightarrow> 'a world" where
  "destroy_at p w = w\<lparr>objs := (objs w)(p := None), dtor_log := dtor_log w @ [p]\<rparr>"

text \<open>The loop \<^verbatim>\<open>for(size_type i = 0; i != s; ++i) p[i].~T();\<close> of \<^verbatim>\<open>clear_impl\<close>, from \<open>i\<close>.\<close>

function destroy_loop :: "size_type \<Rightarrow> ptr \<Rightarrow> size_type \<Rightarrow> size_type \<Rightarrow> 'a world \<Rightarrow> 'a world" where
  "destroy_loop esz p i s w =
     (if i \<noteq> s then destroy_loop esz p (i + 1) s (destroy_at (p + i * esz) w) else w)"
  by pat_completeness auto
termination
proof (relation "measure (\<lambda>(esz, p, i, s, w). unat (s - i))")
  show "wf (measure (\<lambda>(esz, p, i, s, w). unat (s - i)))" by simp
next
  fix esz p i s :: "64 word" and w :: "'a world"
  assume "i \<noteq> s"
  then have nz: "s - i \<noteq> 0" by simp
  have "s - (i + 1) = (s - i) - 1" by simp
  then have "unat (s - (i + 1)) = unat (s - i) - 1"
    using unat_minus_one [OF nz] by (simp only:)
  moreover have "unat (s - i) \<noteq> 0" using nz by (simp add: unat_eq_zero)
  ultimately show "((esz, p, i + 1, s, destroy_at (p + i * esz) w), (esz, p, i, s, w))
                     \<in> measure (\<lambda>(esz, p, i, s, w). unat (s - i))"
    by simp
qed

declare destroy_loop.simps [simp del]

definition clear_impl_true :: "vid \<Rightarrow> 'a world \<Rightarrow> 'a world" where
  "clear_impl_true a w = set_size a 0 w"

definition clear_impl_false :: "traits \<Rightarrow> vid \<Rightarrow> 'a world \<Rightarrow> 'a world" where
  "clear_impl_false T a w =
     (let p = memory (vecs w a) in
      if p \<noteq> 0
      then (let s = size_m (vecs w a);
                w1 = destroy_loop (sizeof_T T) p 0 s w
            in set_size a 0 w1)
      else w)"

definition clear :: "traits \<Rightarrow> vid \<Rightarrow> 'a world \<Rightarrow> 'a world" where
  "clear T a w = (if trivially_destructible T then clear_impl_true a w else clear_impl_false T a w)"

definition ovector_default :: "vid \<Rightarrow> 'a world \<Rightarrow> 'a world" where
  "ovector_default a w = (storage_default a w)\<lparr>live := insert a (live w)\<rparr>"

definition with_max_size_or_null ::
  "os \<Rightarrow> traits \<Rightarrow> vid \<Rightarrow> size_type \<Rightarrow> 'a world \<Rightarrow> fatal + 'a world" where
  "with_max_size_or_null sys T a n w =
     (case storage_sized sys T a n w of
        Inl f \<Rightarrow> Inl f
      | Inr w1 \<Rightarrow> Inr (w1\<lparr>live := insert a (live w1)\<rparr>))"

definition ovector_move_ctor :: "vid \<Rightarrow> vid \<Rightarrow> 'a world \<Rightarrow> 'a world" where
  "ovector_move_ctor a other w = (storage_move_ctor a other w)\<lparr>live := insert a (live w)\<rparr>"

text \<open>
  \<^verbatim>\<open>ovector::operator=(ovector&& other)\<close>: \<^verbatim>\<open>clear()\<close>, then
  \<^verbatim>\<open>_storage = detail::inlined_move(other._storage)\<close>, which constructs the temporary, assigns
  from it and destroys it.
\<close>

definition ovector_move_assign ::
  "os \<Rightarrow> traits \<Rightarrow> vid \<Rightarrow> vid \<Rightarrow> 'a world \<Rightarrow> fatal + 'a world" where
  "ovector_move_assign sys T a other w =
     (let w1 = clear T a w;
          (tmp, w2) = inlined_move_storage other w1
      in case storage_move_assign sys T a tmp w2 of
           Inl f \<Rightarrow> Inl f
         | Inr (tmp1, w3) \<Rightarrow>
             (case storage_dtor_temp sys T tmp1 (os_trace w3) of
                Inl f \<Rightarrow> Inl f
              | Inr tr \<Rightarrow> Inr (w3\<lparr>os_trace := tr\<rparr>)))"

text \<open>\<^verbatim>\<open>~ovector()\<close> runs \<^verbatim>\<open>clear()\<close>, then the storage's destructor runs \<^verbatim>\<open>deallocate()\<close>.\<close>

definition ovector_dtor :: "os \<Rightarrow> traits \<Rightarrow> vid \<Rightarrow> 'a world \<Rightarrow> fatal + 'a world" where
  "ovector_dtor sys T a w =
     (let w1 = clear T a w in
      case deallocate sys T a w1 of
        Inl f \<Rightarrow> Inl f
      | Inr w2 \<Rightarrow> Inr (w2\<lparr>live := live w2 - {a}\<rparr>))"

definition uninitialized_grow_back_by :: "vid \<Rightarrow> size_type \<Rightarrow> 'a world \<Rightarrow> 'a world" where
  "uninitialized_grow_back_by a n w = set_size a (size_m (vecs w a) + n) w"

definition uninitialized_shrink_back_by ::
  "traits \<Rightarrow> vid \<Rightarrow> size_type \<Rightarrow> 'a world \<Rightarrow> ptr \<times> 'a world" where
  "uninitialized_shrink_back_by T a n w =
     (let w1 = set_size a (size_m (vecs w a) - n) w
      in (memory (vecs w1 a) + size_m (vecs w1 a) * sizeof_T T, w1))"

text \<open>
  \<^verbatim>\<open>new(base) T(detail::inlined_forward<Args>(args)...)\<close>. \<^verbatim>\<open>inlined_forward\<close> is declared
  \<^verbatim>\<open>noexcept\<close> with the return type \<^verbatim>\<open>auto\<close>, so it returns each argument by value: the
  argument is copied or moved into a temporary inside a \<^verbatim>\<open>noexcept\<close> function, and when that
  copy or move throws the runtime calls \<^verbatim>\<open>std::terminate\<close>. The copying of the argument pack
  (\<open>fwd\<close>) and the constructor of \<^verbatim>\<open>T\<close> on the temporaries (\<open>construct\<close>) are parameters; each
  either throws (\<open>Inl\<close>) or yields its result (\<open>Inr\<close>), and neither touches the container.
\<close>

definition emplace_back ::
  "traits \<Rightarrow> ('args \<Rightarrow> 'e + 'args) \<Rightarrow> ('args \<Rightarrow> 'e + 'a) \<Rightarrow> vid \<Rightarrow> 'args \<Rightarrow> 'a world
     \<Rightarrow> fatal + ('e + ptr) \<times> 'a world" where
  "emplace_back T fwd construct a args w =
     (let base = memory (vecs w a) + size_m (vecs w a) * sizeof_T T in
      case fwd args of
        Inl e \<Rightarrow> Inl Terminate
      | Inr temps \<Rightarrow>
          (case construct temps of
             Inl e \<Rightarrow> Inr (Inl e, w)
           | Inr x \<Rightarrow>
               (let w1 = w\<lparr>objs := (objs w)(base \<mapsto> x)\<rparr>;
                    w2 = uninitialized_grow_back_by a 1 w1
                in Inr (Inr base, w2))))"

text \<open>
  \<^verbatim>\<open>push_back(T const& value)\<close> is \<^verbatim>\<open>emplace_back(value)\<close>: \<^verbatim>\<open>inlined_forward\<close> copies the value
  with the copy constructor of \<^verbatim>\<open>T\<close> (\<open>copy\<close>), and the element is constructed from the
  temporary (\<open>from_temp\<close>: the move constructor of \<^verbatim>\<open>T\<close>, or nothing where the compiler
  elides it).
\<close>

definition push_back ::
  "traits \<Rightarrow> ('a \<Rightarrow> 'e + 'a) \<Rightarrow> ('a \<Rightarrow> 'e + 'a) \<Rightarrow> vid \<Rightarrow> 'a \<Rightarrow> 'a world
     \<Rightarrow> fatal + ('e + ptr) \<times> 'a world" where
  "push_back T copy from_temp a v w = emplace_back T copy from_temp a v w"

definition pop_back :: "traits \<Rightarrow> vid \<Rightarrow> 'a world \<Rightarrow> 'a world" where
  "pop_back T a w = (let (p, w1) = uninitialized_shrink_back_by T a 1 w in destroy_at p w1)"

text \<open>
  The address of \<^verbatim>\<open>back()\<close>, that is of \<^verbatim>\<open>_storage.memory[_storage.size - 1]\<close>
  (\<open>back\<close> alone is a keyword of Isabelle).
\<close>

definition back_addr :: "traits \<Rightarrow> vid \<Rightarrow> 'a world \<Rightarrow> ptr" where
  "back_addr T a w = memory (vecs w a) + (size_m (vecs w a) - 1) * sizeof_T T"

definition swap_ov :: "vid \<Rightarrow> vid \<Rightarrow> 'a world \<Rightarrow> 'a world" where
  "swap_ov a other w =
     (let w1 = inlined_swap memory set_memory a other w;
          w2 = inlined_swap size_m set_size a other w1
      in inlined_swap max_size set_max_size a other w2)"

text \<open>
  \<^verbatim>\<open>std::equal(first1, last1, first2)\<close> over a range of \<open>n\<close> elements, with the element
  type's \<^verbatim>\<open>operator==\<close> as a parameter. Reading an address that holds no element object is
  undefined behaviour: \<open>None\<close>.
\<close>

fun std_equal ::
  "('a \<Rightarrow> 'a \<Rightarrow> bool) \<Rightarrow> size_type \<Rightarrow> (ptr \<Rightarrow> 'a option) \<Rightarrow> ptr \<Rightarrow> ptr \<Rightarrow> nat \<Rightarrow> bool option" where
  "std_equal eq esz h first1 first2 0 = Some True"
| "std_equal eq esz h first1 first2 (Suc n) =
     (case (h first1, h first2) of
        (Some x, Some y) \<Rightarrow>
          if \<not> eq x y then Some False else std_equal eq esz h (first1 + esz) (first2 + esz) n
      | _ \<Rightarrow> None)"

definition op_eq ::
  "('a \<Rightarrow> 'a \<Rightarrow> bool) \<Rightarrow> traits \<Rightarrow> (ptr \<Rightarrow> 'a option) \<Rightarrow> ovector_storage \<Rightarrow> ovector_storage
     \<Rightarrow> bool option" where
  "op_eq eq T h lhs rhs =
     (if size_m lhs = size_m rhs
      then std_equal eq (sizeof_T T) h (memory lhs) (memory rhs) (unat (size_m lhs))
      else Some False)"

definition op_ne ::
  "('a \<Rightarrow> 'a \<Rightarrow> bool) \<Rightarrow> traits \<Rightarrow> (ptr \<Rightarrow> 'a option) \<Rightarrow> ovector_storage \<Rightarrow> ovector_storage
     \<Rightarrow> bool option" where
  "op_ne eq T h lhs rhs = map_option Not (op_eq eq T h lhs rhs)"

text \<open>
  The elements of a container in insertion order, read from memory: element \<open>k\<close> lies at
  \<^verbatim>\<open>data() + k\<close>, where \<^verbatim>\<open>emplace_back\<close> constructed it. \<open>None\<close> when one of the \<^verbatim>\<open>size()\<close>
  slots holds no element object.
\<close>

definition elements :: "traits \<Rightarrow> (ptr \<Rightarrow> 'a option) \<Rightarrow> ovector_storage \<Rightarrow> 'a list option" where
  "elements T h v =
     those (map (\<lambda>k. h (memory v + of_nat k * sizeof_T T)) [0..<unat (size_m v)])"

section \<open>The invariant and the states the public operations reach\<close>

text \<open>
  The invariant of the storage holder: the capacity is 0 exactly when the base pointer is
  null, and the logical size never exceeds the capacity.
\<close>

definition storage_inv :: "ovector_storage \<Rightarrow> bool" where
  "storage_inv st \<longleftrightarrow> ((max_size st = 0) = (memory st = 0)) \<and> size_m st \<le> max_size st"

definition world_inv :: "'a world \<Rightarrow> bool" where
  "world_inv w \<longleftrightarrow> (\<forall>a \<in> live w. storage_inv (vecs w a))"

text \<open>
  The worlds a program reaches from one with no container, through the public operations
  on live containers. Each element operation is taken under the precondition its
  documentation states, written as the documentation writes it: \<^verbatim>\<open>data() != nullptr\<close> and
  \<^verbatim>\<open>max_size() - size() > 0\<close> for \<^verbatim>\<open>emplace_back\<close>, \<^verbatim>\<open>size() != 0\<close> for \<^verbatim>\<open>pop_back\<close>,
  \<^verbatim>\<open>size() + n <= max_size()\<close> for \<^verbatim>\<open>uninitialized_grow_back_by\<close> and \<^verbatim>\<open>size() >= n\<close> for
  \<^verbatim>\<open>uninitialized_shrink_back_by\<close>. Move assignment and swap accept the same container on
  both sides. The copying of the arguments of \<^verbatim>\<open>emplace_back\<close> and the construction from the
  temporary in \<^verbatim>\<open>push_back\<close> may behave in any way; an operation that ends the process
  reaches no world.
\<close>

inductive reachable ::
  "os \<Rightarrow> traits \<Rightarrow> ('args \<Rightarrow> 'e + 'a) \<Rightarrow> ('a \<Rightarrow> 'e + 'a) \<Rightarrow> 'a world \<Rightarrow> bool"
  for sys :: os and T :: traits and construct :: "'args \<Rightarrow> 'e + 'a" and copy :: "'a \<Rightarrow> 'e + 'a"
where
  start:
    "live w = {} \<Longrightarrow> reachable sys T construct copy w"
| default_construct:
    "\<lbrakk>reachable sys T construct copy w; a \<notin> live w\<rbrakk>
     \<Longrightarrow> reachable sys T construct copy (ovector_default a w)"
| sized_construct:
    "\<lbrakk>reachable sys T construct copy w; a \<notin> live w;
      with_max_size_or_null sys T a n w = Inr w'\<rbrakk>
     \<Longrightarrow> reachable sys T construct copy w'"
| move_construct:
    "\<lbrakk>reachable sys T construct copy w; a \<notin> live w; b \<in> live w\<rbrakk>
     \<Longrightarrow> reachable sys T construct copy (ovector_move_ctor a b w)"
| move_assign:
    "\<lbrakk>reachable sys T construct copy w; a \<in> live w; b \<in> live w;
      ovector_move_assign sys T a b w = Inr w'\<rbrakk>
     \<Longrightarrow> reachable sys T construct copy w'"
| swap:
    "\<lbrakk>reachable sys T construct copy w; a \<in> live w; b \<in> live w\<rbrakk>
     \<Longrightarrow> reachable sys T construct copy (swap_ov a b w)"
| emplace:
    "\<lbrakk>reachable sys T construct copy w; a \<in> live w;
      memory (vecs w a) \<noteq> 0; max_size (vecs w a) - size_m (vecs w a) > 0;
      emplace_back T fwd construct a args w = Inr (r, w')\<rbrakk>
     \<Longrightarrow> reachable sys T construct copy w'"
| push:
    "\<lbrakk>reachable sys T construct copy w; a \<in> live w;
      memory (vecs w a) \<noteq> 0; max_size (vecs w a) - size_m (vecs w a) > 0;
      push_back T copy from_temp a v w = Inr (r, w')\<rbrakk>
     \<Longrightarrow> reachable sys T construct copy w'"
| pop:
    "\<lbrakk>reachable sys T construct copy w; a \<in> live w; size_m (vecs w a) \<noteq> 0\<rbrakk>
     \<Longrightarrow> reachable sys T construct copy (pop_back T a w)"
| clear:
    "\<lbrakk>reachable sys T construct copy w; a \<in> live w\<rbrakk>
     \<Longrightarrow> reachable sys T construct copy (clear T a w)"
| grow:
    "\<lbrakk>reachable sys T construct copy w; a \<in> live w;
      size_m (vecs w a) + n \<le> max_size (vecs w a)\<rbrakk>
     \<Longrightarrow> reachable sys T construct copy (uninitialized_grow_back_by a n w)"
| shrink:
    "\<lbrakk>reachable sys T construct copy w; a \<in> live w; n \<le> size_m (vecs w a)\<rbrakk>
     \<Longrightarrow> reachable sys T construct copy (snd (uninitialized_shrink_back_by T a n w))"
| destroy:
    "\<lbrakk>reachable sys T construct copy w; a \<in> live w; ovector_dtor sys T a w = Inr w'\<rbrakk>
     \<Longrightarrow> reachable sys T construct copy w'"

section \<open>Concrete inputs\<close>

text \<open>
  An operating system that grants every request at address 65536, a world with no
  container, and the traits of \<^verbatim>\<open>int\<close> and of the tests' \<^verbatim>\<open>dtor_counted\<close>.
\<close>

definition granting_os :: os where
  "granting_os = \<lparr>mmap_anon = (\<lambda>tr len. Some 65536), mmap_fixed = (\<lambda>tr p len. True),
                   munmap = (\<lambda>tr p len. True)\<rparr>"


definition empty_world :: "'a world" where
  "empty_world = \<lparr>vecs = (\<lambda>a. \<lparr>memory = 0, size_m = 0, max_size = 0\<rparr>), live = {},
                   objs = (\<lambda>p. None), dtor_log = [], os_trace = []\<rparr>"

definition int_traits :: traits where
  "int_traits = \<lparr>sizeof_T = 4, trivially_destructible = True\<rparr>"

definition dtor_counted_traits :: traits where
  "dtor_counted_traits = \<lparr>sizeof_T = 1, trivially_destructible = False\<rparr>"

text \<open>
  A constructor of \<^verbatim>\<open>int\<close> elements that throws on a negative argument, and the world
  after \<^verbatim>\<open>ovector<int>::with_max_size_or_null(2)\<close> under the granting operating system.
\<close>

definition checked_ctor :: "int \<Rightarrow> string + int" where
  "checked_ctor x = (if x < 0 then Inl ''negative'' else Inr x)"

text \<open>
  The copying of an \<^verbatim>\<open>int\<close> argument, which never throws, and the copy constructor of an
  element type whose copies always throw.
\<close>

definition copy_int :: "int \<Rightarrow> string + int" where
  "copy_int x = Inr x"

definition throwing_copy :: "int \<Rightarrow> string + int" where
  "throwing_copy x = Inl ''copy failed''"

definition two_int_world :: "int world" where
  "two_int_world =
     \<lparr>vecs = (\<lambda>a. \<lparr>memory = 0, size_m = 0, max_size = 0\<rparr>)
               (0 := \<lparr>memory = 69624, size_m = 0, max_size = 2\<rparr>),
      live = {0}, objs = (\<lambda>p. None), dtor_log = [],
      os_trace = [Reserve 65536 8192, Guard 69632 4096]\<rparr>"

text \<open>
  A container of three \<^verbatim>\<open>dtor_counted\<close> elements (the type has no data: its values are
  \<open>()\<close>), a memory holding three runs of two \<^verbatim>\<open>int\<close>s, and a world with two containers of
  \<^verbatim>\<open>int\<close>s, of capacities 2 and 3.
\<close>

definition three_counted_world :: "unit world" where
  "three_counted_world =
     \<lparr>vecs = (\<lambda>a. \<lparr>memory = 0, size_m = 0, max_size = 0\<rparr>)
               (0 := \<lparr>memory = 69629, size_m = 3, max_size = 3\<rparr>),
      live = {0},
      objs = (\<lambda>p. if p = 69629 \<or> p = 69630 \<or> p = 69631 then Some () else None),
      dtor_log = [],
      os_trace = [Reserve 65536 8192, Guard 69632 4096]\<rparr>"

definition int_heap :: "ptr \<Rightarrow> int option" where
  "int_heap = (\<lambda>p. None)(100 \<mapsto> 1, 104 \<mapsto> 2, 200 \<mapsto> 1, 204 \<mapsto> 2, 300 \<mapsto> 1, 304 \<mapsto> 5)"

definition two_vec_world :: "int world" where
  "two_vec_world =
     \<lparr>vecs = (\<lambda>a. \<lparr>memory = 0, size_m = 0, max_size = 0\<rparr>)
               (0 := \<lparr>memory = 69624, size_m = 1, max_size = 2\<rparr>,
                1 := \<lparr>memory = 135156, size_m = 2, max_size = 3\<rparr>),
      live = {0, 1},
      objs = (\<lambda>p. None)(69624 \<mapsto> 7, 135156 \<mapsto> 8, 135160 \<mapsto> 9),
      dtor_log = [],
      os_trace = [Reserve 65536 8192, Guard 69632 4096,
                  Reserve 131072 8192, Guard 135168 4096]\<rparr>"

section \<open>Page rounding and overflow checks\<close>

lemma ceil_nat_bounds:
  fixes n :: nat
  defines "c \<equiv> (n div 4096 + (if n mod 4096 \<noteq> 0 then 1 else 0)) * 4096"
  shows "n \<le> c" and "c < n + 4096"
proof -
  define q where "q = n div 4096"
  define r where "r = n mod 4096"
  have n: "n = q * 4096 + r" and r: "r < 4096"
    by (simp_all add: q_def r_def)
  have c: "c = (if r \<noteq> 0 then q * 4096 + 4096 else q * 4096)"
    by (simp add: c_def q_def r_def)
  show "n \<le> c" using n r c by (cases "r = 0") simp_all
  show "c < n + 4096" using n r c by (cases "r = 0") simp_all
qed

lemma no_round_overflow_iff:
  "\<not> (d > SIZE_TYPE_MAX - PAGE_SIZE + 1) \<longleftrightarrow> unat d + 4096 \<le> 2 ^ 64"
  by (simp add: SIZE_TYPE_MAX_def PAGE_SIZE_def word_less_nat_alt not_less)

lemma unat_ceil_multiple:
  assumes "unat d + 4096 \<le> 2 ^ 64"
  shows "unat (ceil_multiple d PAGE_SIZE) =
           (unat d div 4096 + (if unat d mod 4096 \<noteq> 0 then 1 else 0)) * 4096"
proof -
  let ?q = "unat d div 4096"
  let ?c = "(if d mod 4096 \<noteq> 0 then 1 else 0) :: 64 word"
  let ?cn = "(if unat d mod 4096 \<noteq> 0 then 1 else 0) :: nat"
  have q: "unat (d div 4096) = ?q" by (simp add: unat_div)
  have m: "(d mod 4096 \<noteq> 0) = (unat d mod 4096 \<noteq> 0)"
    by (simp add: unat_mod flip: unat_eq_zero)
  have c: "unat ?c = ?cn"
    using m by simp
  have b: "(?q + ?cn) * 4096 < unat d + 4096"
    by (rule ceil_nat_bounds(2))
  then have lt: "(?q + ?cn) * 4096 < 2 ^ 64"
    using assms by linarith
  moreover have "?q + ?cn \<le> (?q + ?cn) * 4096" by simp
  ultimately have "?q + ?cn < 2 ^ 64" by linarith
  then have s: "unat (d div 4096 + ?c) = ?q + ?cn"
    using unat_add_lem [of "d div 4096" ?c] unfolding q c by simp
  have "unat ((d div 4096 + ?c) * 4096) = unat (d div 4096 + ?c) * unat (4096 :: 64 word)"
    using unat_mult_lem [of "d div 4096 + ?c" 4096] lt unfolding s by simp
  then show ?thesis
    unfolding ceil_multiple_def PAGE_SIZE_def s by simp
qed



lemma add_overflows_iff: "add_overflows a b \<longleftrightarrow> 2 ^ 64 \<le> unat a + unat b"
proof -
  have "b \<le> (- 1 :: 64 word)" by simp
  then have "unat (- 1 - b) = unat (- 1 :: 64 word) - unat b" by (rule unat_sub)
  then have "unat (SIZE_TYPE_MAX - b) = 2 ^ 64 - 1 - unat b"
    unfolding SIZE_TYPE_MAX_def by (simp add: unsigned_minus_1_eq_mask mask_eq_exp_minus_1)
  moreover have "unat b < 2 ^ 64" using unsigned_less [of b] by simp
  ultimately show ?thesis
    unfolding add_overflows_def word_less_nat_alt by linarith
qed

lemma ceil_multiple_slack:
  assumes "unat d + 4096 \<le> 2 ^ 64"
  shows "unat d \<le> unat (ceil_multiple d PAGE_SIZE)"
    and "unat (ceil_multiple d PAGE_SIZE - d) + unat d = unat (ceil_multiple d PAGE_SIZE)"
    and "unat (ceil_multiple d PAGE_SIZE - d) < 4096"
proof -
  let ?c = "ceil_multiple d PAGE_SIZE"
  have u: "unat ?c = (unat d div 4096 + (if unat d mod 4096 \<noteq> 0 then 1 else 0)) * 4096"
    using assms by (rule unat_ceil_multiple)
  show ge: "unat d \<le> unat ?c"
    unfolding u by (rule ceil_nat_bounds(1))
  have lt: "unat ?c < unat d + 4096"
    unfolding u by (rule ceil_nat_bounds(2))
  have s: "unat (?c - d) = unat ?c - unat d"
    using ge by (simp add: unat_sub word_le_nat_alt)
  show "unat (?c - d) + unat d = unat ?c" using s ge by simp
  show "unat (?c - d) < 4096" using s lt ge by simp
qed

lemma guarded_alloc_success:
  assumes "guarded_alloc sys tr d g = Inr (p, tr')" and "p \<noteq> 0"
  shows "d \<noteq> 0 \<and> unat d + 4096 \<le> 2 ^ 64 \<and> unat g + 4096 \<le> 2 ^ 64
         \<and> unat (ceil_multiple d PAGE_SIZE) + unat (ceil_multiple g PAGE_SIZE) < 2 ^ 64
         \<and> (\<exists>base. base \<noteq> 0
              \<and> mmap_anon sys tr (ceil_multiple d PAGE_SIZE + ceil_multiple g PAGE_SIZE) = Some base
              \<and> tr' = tr @ [Reserve base (ceil_multiple d PAGE_SIZE + ceil_multiple g PAGE_SIZE),
                             Guard (base + ceil_multiple d PAGE_SIZE) (ceil_multiple g PAGE_SIZE)]
              \<and> p = base + (ceil_multiple d PAGE_SIZE - d))"
  using assms
  unfolding guarded_alloc_def os_guarded_alloc_def Let_def
  by (auto simp: add_overflows_iff no_round_overflow_iff not_le
           split: if_splits option.splits sum.splits prod.splits)


section \<open>The guarded allocator: placement and release\<close>

text \<open>
  Claim C3. Whenever \<^verbatim>\<open>guarded_alloc\<close> succeeds (returns a non-null pointer) for a data size
  \<open>d\<close> and a guard size \<open>g\<close>, the operating system was asked for one reservation of the two
  rounded sizes, at some base, and the guard starts at the base plus the rounded data size.
  The pointer returned is the base plus the rounding slack (rounded data size minus \<open>d\<close>), so
  the \<open>d\<close> bytes from the pointer end exactly where the guard begins. The slack does not wrap
  around: it is the difference of the two sizes as numbers and is less than a page. The
  data size is positive.
\<close>

theorem guarded_alloc_offset:
  assumes "guarded_alloc sys tr d g = Inr (p, tr')" and "p \<noteq> 0"
  shows "\<exists>base. tr' = tr @ [Reserve base (ceil_multiple d PAGE_SIZE + ceil_multiple g PAGE_SIZE),
                            Guard (base + ceil_multiple d PAGE_SIZE) (ceil_multiple g PAGE_SIZE)]
               \<and> p = base + (ceil_multiple d PAGE_SIZE - d)
               \<and> p + d = base + ceil_multiple d PAGE_SIZE
               \<and> unat (ceil_multiple d PAGE_SIZE - d) + unat d = unat (ceil_multiple d PAGE_SIZE)
               \<and> unat (ceil_multiple d PAGE_SIZE - d) < 4096
               \<and> 0 < unat d"
proof -
  from guarded_alloc_success [OF assms] obtain base where
    d: "d \<noteq> 0" "unat d + 4096 \<le> 2 ^ 64" and
    tr': "tr' = tr @ [Reserve base (ceil_multiple d PAGE_SIZE + ceil_multiple g PAGE_SIZE),
                      Guard (base + ceil_multiple d PAGE_SIZE) (ceil_multiple g PAGE_SIZE)]" and
    p: "p = base + (ceil_multiple d PAGE_SIZE - d)"
    by blast
  have "p + d = base + ceil_multiple d PAGE_SIZE" unfolding p by simp
  moreover have "0 < unat d" using d(1) by (simp add: unat_gt_0)
  ultimately show ?thesis
    using tr' p ceil_multiple_slack(2,3) [OF d(2)] by blast
qed

theorem guarded_alloc_offset_witness:
  "guarded_alloc granting_os [] 5 4 = Inr (69627, [Reserve 65536 8192, Guard 69632 4096])
   \<and> (69627 :: ptr) \<noteq> 0
   \<and> (\<exists>base. [Reserve 65536 8192, Guard 69632 4096]
                = [] @ [Reserve base (ceil_multiple 5 PAGE_SIZE + ceil_multiple 4 PAGE_SIZE),
                        Guard (base + ceil_multiple 5 PAGE_SIZE) (ceil_multiple 4 PAGE_SIZE)]
              \<and> (69627 :: ptr) = base + (ceil_multiple 5 PAGE_SIZE - 5)
              \<and> (69627 :: ptr) + 5 = base + ceil_multiple 5 PAGE_SIZE
              \<and> unat (ceil_multiple 5 PAGE_SIZE - 5) + unat (5 :: size_type) = unat (ceil_multiple 5 PAGE_SIZE)
              \<and> unat (ceil_multiple 5 PAGE_SIZE - 5) < 4096
              \<and> 0 < unat (5 :: size_type))"
proof -
  have h: "guarded_alloc granting_os [] 5 4 = Inr (69627, [Reserve 65536 8192, Guard 69632 4096])"
    by (simp add: guarded_alloc_def os_guarded_alloc_def granting_os_def ceil_multiple_def
          add_overflows_def SIZE_TYPE_MAX_def PAGE_SIZE_def)
  have nz: "(69627 :: ptr) \<noteq> 0" by simp
  show ?thesis using h nz guarded_alloc_offset [OF h nz] by simp
qed

text \<open>
  Claim C4. When \<^verbatim>\<open>guarded_alloc\<close> has succeeded for \<open>d\<close> and \<open>g\<close> with the reservation at
  \<open>base\<close>, \<^verbatim>\<open>guarded_dealloc\<close> on the returned pointer with the same \<open>d\<close> and \<open>g\<close>, at any
  later moment, is the operating system's release called on \<open>base\<close> with the sum of the two
  rounded sizes as length, which is the reservation as it was made; where that call
  succeeds the release is recorded with exactly these two arguments.
\<close>

theorem guarded_dealloc_releases_reservation:
  assumes "guarded_alloc sys tr d g = Inr (p, tr')" and "p \<noteq> 0"
  shows "\<exists>base. tr' = tr @ [Reserve base (ceil_multiple d PAGE_SIZE + ceil_multiple g PAGE_SIZE),
                            Guard (base + ceil_multiple d PAGE_SIZE) (ceil_multiple g PAGE_SIZE)]
               \<and> guarded_dealloc sys tr2 p d g
                   = os_dealloc sys tr2 base (ceil_multiple d PAGE_SIZE + ceil_multiple g PAGE_SIZE)
               \<and> (munmap sys tr2 base (ceil_multiple d PAGE_SIZE + ceil_multiple g PAGE_SIZE)
                    \<longrightarrow> guarded_dealloc sys tr2 p d g
                         = Inr (tr2 @ [Release base (ceil_multiple d PAGE_SIZE + ceil_multiple g PAGE_SIZE)]))"
proof -
  from guarded_alloc_success [OF assms] obtain base where
    tr': "tr' = tr @ [Reserve base (ceil_multiple d PAGE_SIZE + ceil_multiple g PAGE_SIZE),
                      Guard (base + ceil_multiple d PAGE_SIZE) (ceil_multiple g PAGE_SIZE)]" and
    p: "p = base + (ceil_multiple d PAGE_SIZE - d)"
    by blast
  have "guarded_dealloc sys tr2 p d g
          = os_dealloc sys tr2 base (ceil_multiple d PAGE_SIZE + ceil_multiple g PAGE_SIZE)"
    unfolding guarded_dealloc_def Let_def p by simp
  then show ?thesis using tr' by (auto simp: os_dealloc_def)
qed

theorem guarded_dealloc_releases_reservation_witness:
  "guarded_alloc granting_os [] 5 4 = Inr (69627, [Reserve 65536 8192, Guard 69632 4096])
   \<and> (69627 :: ptr) \<noteq> 0
   \<and> munmap granting_os [Reserve 65536 8192, Guard 69632 4096] 65536 8192
   \<and> guarded_dealloc granting_os [Reserve 65536 8192, Guard 69632 4096] 69627 5 4
       = Inr [Reserve 65536 8192, Guard 69632 4096, Release 65536 8192]"
proof -
  have h: "guarded_alloc granting_os [] 5 4 = Inr (69627, [Reserve 65536 8192, Guard 69632 4096])"
    by (simp add: guarded_alloc_def os_guarded_alloc_def granting_os_def ceil_multiple_def
          add_overflows_def SIZE_TYPE_MAX_def PAGE_SIZE_def)
  have nz: "(69627 :: ptr) \<noteq> 0" by simp
  have m: "munmap granting_os [Reserve 65536 8192, Guard 69632 4096] 65536 8192"
    by (simp add: granting_os_def)
  have c: "ceil_multiple 5 PAGE_SIZE = 4096" "ceil_multiple 4 PAGE_SIZE = 4096"
    by (simp_all add: ceil_multiple_def PAGE_SIZE_def)
  from guarded_dealloc_releases_reservation
         [OF h nz, of "[Reserve 65536 8192, Guard 69632 4096]"]
  show ?thesis using h nz m unfolding c by auto
qed

lemma round_overflow_iff:
  "(SIZE_TYPE_MAX - PAGE_SIZE + 1 < d) \<longleftrightarrow> 2 ^ 64 < unat d + 4096"
  using no_round_overflow_iff [of d] by linarith

text \<open>
  The overflow checks of \<^verbatim>\<open>guarded_alloc\<close>. When rounding the data size or the guard size
  up to a page multiple would exceed the range of \<^verbatim>\<open>size_type\<close>, or the sum of the two
  rounded sizes does, \<^verbatim>\<open>guarded_alloc\<close> returns null and asks nothing of the operating
  system. The test \<^verbatim>\<open>no_overflow_in_allocation\<close> is the case of \<^verbatim>\<open>char\<close> elements and the
  count \<^verbatim>\<open>~0ull\<close>.
\<close>

theorem guarded_alloc_overflow_null:
  assumes "2 ^ 64 < unat d + 4096 \<or> 2 ^ 64 < unat g + 4096
           \<or> 2 ^ 64 \<le> unat (ceil_multiple d PAGE_SIZE) + unat (ceil_multiple g PAGE_SIZE)"
  shows "guarded_alloc sys tr d g = Inr (0, tr)"
  using assms unfolding guarded_alloc_def Let_def round_overflow_iff add_overflows_iff
  by auto

theorem guarded_alloc_overflow_null_witness:
  "2 ^ 64 < unat (- 1 :: size_type) + 4096
   \<and> guarded_alloc granting_os [] (- 1) 1 = Inr (0, [])"
proof -
  have h: "2 ^ 64 < unat (- 1 :: size_type) + 4096"
    by (simp add: unsigned_minus_1_eq_mask mask_eq_exp_minus_1)
  then have "2 ^ 64 < unat (- 1 :: size_type) + 4096 \<or> 2 ^ 64 < unat (1 :: size_type) + 4096
           \<or> 2 ^ 64 \<le> unat (ceil_multiple (- 1) PAGE_SIZE) + unat (ceil_multiple 1 PAGE_SIZE)"
    by (rule disjI1)
  from guarded_alloc_overflow_null [OF this, of granting_os "[]"] h show ?thesis by simp
qed

section \<open>Effects of the operations on the store\<close>

lemma destroy_loop_frame:
  "vecs (destroy_loop esz p i s w) = vecs w \<and> live (destroy_loop esz p i s w) = live w
   \<and> os_trace (destroy_loop esz p i s w) = os_trace w"
proof (induction esz p i s w rule: destroy_loop.induct)
  case (1 esz p i s w)
  show ?case
  proof (cases "i = s")
    case True
    then show ?thesis by (subst (1 2 3) destroy_loop.simps) simp
  next
    case False
    with 1 show ?thesis
      by (subst (1 2 3) destroy_loop.simps) (simp add: destroy_at_def)
  qed
qed

lemma storage_overwrite:
  "r\<lparr>memory := m, size_m := s, max_size := c\<rparr> = \<lparr>memory = m, size_m = s, max_size = c\<rparr>"
  by (cases r) simp

lemma storage_eta: "\<lparr>memory = memory r, size_m = size_m r, max_size = max_size r\<rparr> = r"
  by (cases r) simp

lemma move_fields_eq:
  "(let (m, w1) = inlined_exchange memory set_memory b 0 w;
        w2 = set_memory a m w1;
        (s, w3) = inlined_exchange size_m set_size b 0 w2;
        w4 = set_size a s w3;
        (c, w5) = inlined_exchange max_size set_max_size b 0 w4
    in set_max_size a c w5)
   = w\<lparr>vecs := (vecs w)(b := \<lparr>memory = 0, size_m = 0, max_size = 0\<rparr>, a := vecs w b)\<rparr>"
  by (cases "a = b")
     (simp_all add: inlined_exchange_def set_memory_def set_size_def set_max_size_def Let_def
        fun_upd_twist storage_overwrite storage_eta)

lemma storage_move_ctor_eq:
  "storage_move_ctor a b w
   = w\<lparr>vecs := (vecs w)(b := \<lparr>memory = 0, size_m = 0, max_size = 0\<rparr>, a := vecs w b)\<rparr>"
  unfolding storage_move_ctor_def by (rule move_fields_eq)

lemma swap_ov_eq:
  "swap_ov a b w = w\<lparr>vecs := (vecs w)(a := vecs w b, b := vecs w a)\<rparr>"
  by (cases "a = b")
     (simp_all add: swap_ov_def inlined_swap_def set_memory_def set_size_def set_max_size_def
        Let_def fun_upd_twist storage_overwrite storage_eta)

lemma destroy_loop_log:
  "i \<le> s \<Longrightarrow> dtor_log (destroy_loop esz p i s w)
     = dtor_log w @ map (\<lambda>k. p + of_nat k * esz) [unat i..<unat s]"
proof (induction esz p i s w rule: destroy_loop.induct)
  case (1 esz p i s w)
  show ?case
  proof (cases "i = s")
    case True
    then show ?thesis by (subst destroy_loop.simps) simp
  next
    case False
    with "1.prems" have lt: "i < s" by simp
    then have le: "i + 1 \<le> s" by (rule inc_le)
    have ul: "unat i < unat s" using lt by (simp add: word_less_nat_alt)
    have "unat s < 2 ^ 64" using unsigned_less [of s] by simp
    with ul have "unat i + unat (1 :: 64 word) < 2 ^ LENGTH(64)" by simp
    then have "unat (i + 1) = unat i + unat (1 :: 64 word)"
      by (rule unat_add_lem [THEN iffD1])
    then have su: "unat (i + 1) = Suc (unat i)" by simp
    have "dtor_log (destroy_loop esz p i s w)
            = dtor_log (destroy_loop esz p (i + 1) s (destroy_at (p + i * esz) w))"
      using False by (subst destroy_loop.simps) simp
    also have "\<dots> = dtor_log (destroy_at (p + i * esz) w)
                       @ map (\<lambda>k. p + of_nat k * esz) [unat (i + 1)..<unat s]"
      using "1.IH" [OF False le] .
    also have "\<dots> = dtor_log w @ map (\<lambda>k. p + of_nat k * esz) [unat i..<unat s]"
      using ul by (simp add: destroy_at_def su upt_conv_Cons)
    finally show ?thesis .
  qed
qed

lemma clear_vecs:
  "vecs (clear T a w)
     = (if trivially_destructible T \<or> memory (vecs w a) \<noteq> 0
        then (vecs w)(a := (vecs w a)\<lparr>size_m := 0\<rparr>) else vecs w)"
  by (simp add: clear_def clear_impl_true_def clear_impl_false_def set_size_def Let_def
        destroy_loop_frame)

lemma clear_frame: "live (clear T a w) = live w \<and> os_trace (clear T a w) = os_trace w"
  by (simp add: clear_def clear_impl_true_def clear_impl_false_def set_size_def Let_def
        destroy_loop_frame)

lemma clear_dtor_log:
  "dtor_log (clear T a w)
     = dtor_log w @
       (if trivially_destructible T \<or> memory (vecs w a) = 0 then []
        else map (\<lambda>k. memory (vecs w a) + of_nat k * sizeof_T T) [0..<unat (size_m (vecs w a))])"
  by (simp add: clear_def clear_impl_true_def clear_impl_false_def set_size_def Let_def
        destroy_loop_log)

lemma deallocate_frame:
  "deallocate sys T a w = Inr w' \<Longrightarrow>
     vecs w' = vecs w \<and> live w' = live w \<and> objs w' = objs w \<and> dtor_log w' = dtor_log w"
  by (auto simp: deallocate_def split: if_splits sum.splits)

lemma deallocate_trace:
  "deallocate sys T a w = Inr w' \<Longrightarrow>
     os_trace w' = os_trace w @
       (if memory (vecs w a) = 0 then []
        else [Release (memory (vecs w a)
                        - (ceil_multiple (max_size (vecs w a) * sizeof_T T) PAGE_SIZE
                           - max_size (vecs w a) * sizeof_T T))
                      (ceil_multiple (max_size (vecs w a) * sizeof_T T) PAGE_SIZE
                        + ceil_multiple (sizeof_T T) PAGE_SIZE)])"
  by (auto simp: deallocate_def guarded_dealloc_def os_dealloc_def Let_def
           split: if_splits sum.splits)

lemma inlined_move_storage_eq:
  "inlined_move_storage b w
     = (vecs w b, w\<lparr>vecs := (vecs w)(b := \<lparr>memory = 0, size_m = 0, max_size = 0\<rparr>)\<rparr>)"
  by (simp add: inlined_move_storage_def inlined_exchange_def set_memory_def set_size_def
        set_max_size_def Let_def storage_overwrite storage_eta)

lemma storage_move_assign_eq:
  "storage_move_assign sys T a t w =
     (case deallocate sys T a w of
        Inl f \<Rightarrow> Inl f
      | Inr w0 \<Rightarrow>
          Inr (\<lparr>memory = 0, size_m = 0, max_size = 0\<rparr>, w0\<lparr>vecs := (vecs w0)(a := t)\<rparr>))"
  unfolding storage_move_assign_def
  by (simp add: inlined_exchange_temp_def set_memory_def set_size_def set_max_size_def Let_def
        storage_overwrite storage_eta split: sum.splits)

lemma storage_dtor_temp_null:
  "storage_dtor_temp sys T \<lparr>memory = 0, size_m = 0, max_size = 0\<rparr> tr = Inr tr"
  by (simp add: storage_dtor_temp_def)

lemma ovector_move_assign_eq:
  "ovector_move_assign sys T a b w =
     (case deallocate sys T a
             ((clear T a w)\<lparr>vecs := (vecs (clear T a w))
                                       (b := \<lparr>memory = 0, size_m = 0, max_size = 0\<rparr>)\<rparr>) of
        Inl f \<Rightarrow> Inl f
      | Inr w0 \<Rightarrow> Inr (w0\<lparr>vecs := (vecs w0)(a := vecs (clear T a w) b)\<rparr>))"
  unfolding ovector_move_assign_def Let_def inlined_move_storage_eq prod.case
    storage_move_assign_eq
  by (simp add: storage_dtor_temp_null split: sum.splits)

lemma ovector_move_assign_vecs:
  assumes "ovector_move_assign sys T a b w = Inr w'"
  shows "vecs w' = (vecs (clear T a w))(b := \<lparr>memory = 0, size_m = 0, max_size = 0\<rparr>,
                                         a := vecs (clear T a w) b)"
    and "live w' = live w"
    and "dtor_log w' = dtor_log (clear T a w)"
    and "os_trace w' = os_trace w @
       (if a = b \<or> memory (vecs w a) = 0 then []
        else [Release (memory (vecs w a)
                        - (ceil_multiple (max_size (vecs w a) * sizeof_T T) PAGE_SIZE
                           - max_size (vecs w a) * sizeof_T T))
                      (ceil_multiple (max_size (vecs w a) * sizeof_T T) PAGE_SIZE
                        + ceil_multiple (sizeof_T T) PAGE_SIZE)])"
proof -
  let ?c = "clear T a w"
  let ?w2 = "?c\<lparr>vecs := (vecs ?c)(b := \<lparr>memory = 0, size_m = 0, max_size = 0\<rparr>)\<rparr>"
  from assms obtain w0 where
    d: "deallocate sys T a ?w2 = Inr w0" and
    w': "w' = w0\<lparr>vecs := (vecs w0)(a := vecs ?c b)\<rparr>"
    unfolding ovector_move_assign_eq by (auto split: sum.splits)
  note f = deallocate_frame [OF d] and t = deallocate_trace [OF d]
  show "vecs w' = (vecs ?c)(b := \<lparr>memory = 0, size_m = 0, max_size = 0\<rparr>, a := vecs ?c b)"
    using f by (simp add: w')
  show "live w' = live w" using f by (simp add: w' clear_frame)
  show "dtor_log w' = dtor_log ?c" using f by (simp add: w')
  have m: "memory (vecs ?w2 a) = (if a = b then 0 else memory (vecs w a))"
    and c: "a \<noteq> b \<Longrightarrow> max_size (vecs ?w2 a) = max_size (vecs w a)"
    by (simp_all add: clear_vecs)
  have o: "os_trace ?w2 = os_trace w" by (simp add: clear_frame)
  show "os_trace w' = os_trace w @
       (if a = b \<or> memory (vecs w a) = 0 then []
        else [Release (memory (vecs w a)
                        - (ceil_multiple (max_size (vecs w a) * sizeof_T T) PAGE_SIZE
                           - max_size (vecs w a) * sizeof_T T))
                      (ceil_multiple (max_size (vecs w a) * sizeof_T T) PAGE_SIZE
                        + ceil_multiple (sizeof_T T) PAGE_SIZE)])"
  proof (cases "a = b")
    case True
    then show ?thesis using t m o by (simp add: w')
  next
    case False
    then show ?thesis using t m c [OF False] o by (simp add: w')
  qed
qed

lemma storage_inv_clear: "storage_inv st \<Longrightarrow> storage_inv (st\<lparr>size_m := 0\<rparr>)"
  by (simp add: storage_inv_def)

lemma storage_inv_unbacked: "storage_inv \<lparr>memory = 0, size_m = 0, max_size = 0\<rparr>"
  by (simp add: storage_inv_def)

lemma world_inv_clear: "world_inv w \<Longrightarrow> world_inv (clear T a w)"
  by (simp add: world_inv_def clear_vecs clear_frame storage_inv_clear)

lemma storage_sized_inv:
  assumes "storage_sized sys T a n w = Inr w'"
  shows "storage_inv (vecs w' a) \<and> (\<forall>c. c \<noteq> a \<longrightarrow> vecs w' c = vecs w c) \<and> live w' = live w"
proof -
  from assms obtain mem tr' where
    g: "guarded_alloc sys (os_trace w) (n * sizeof_T T) (sizeof_T T) = Inr (mem, tr')" and
    w': "w' = w\<lparr>vecs := (vecs w)(a := \<lparr>memory = mem, size_m = 0,
                                       max_size = (if mem \<noteq> 0 then n else 0)\<rparr>),
                 os_trace := tr'\<rparr>"
    by (auto simp: storage_sized_def split: sum.splits prod.splits)
  have "mem \<noteq> 0 \<Longrightarrow> n \<noteq> 0"
  proof
    assume "mem \<noteq> 0" and "n = 0"
    then show False using g by (simp add: guarded_alloc_def)
  qed
  then show ?thesis by (auto simp: w' storage_inv_def)
qed

lemma storage_inv_grow_one:
  assumes "storage_inv st" and "max_size st - size_m st > 0"
  shows "storage_inv (st\<lparr>size_m := size_m st + 1\<rparr>)"
proof -
  from assms(2) have "size_m st \<noteq> max_size st" by auto
  moreover from assms(1) have "size_m st \<le> max_size st" by (simp add: storage_inv_def)
  ultimately have "size_m st < max_size st" by simp
  then have "size_m st + 1 \<le> max_size st" by (rule inc_le)
  with assms(1) show ?thesis by (simp add: storage_inv_def)
qed

lemma storage_inv_shrink:
  assumes "storage_inv st" and "n \<le> size_m st"
  shows "storage_inv (st\<lparr>size_m := size_m st - n\<rparr>)"
proof -
  have "size_m st - n \<le> size_m st" using assms(2) by (rule word_sub_le)
  moreover from assms(1) have "size_m st \<le> max_size st" by (simp add: storage_inv_def)
  ultimately have "size_m st - n \<le> max_size st" by (rule order_trans)
  with assms(1) show ?thesis by (simp add: storage_inv_def)
qed

lemma storage_inv_pop:
  assumes "storage_inv st" and "size_m st \<noteq> 0"
  shows "storage_inv (st\<lparr>size_m := size_m st - 1\<rparr>)"
proof -
  have "0 < unat (size_m st)" using assms(2) by (simp add: unat_gt_0)
  then have "1 \<le> size_m st" by (simp add: word_le_nat_alt)
  with assms(1) show ?thesis by (rule storage_inv_shrink)
qed

lemma world_inv_upd:
  assumes "world_inv w" and "live w' = live w" and "vecs w' = (vecs w)(a := st)"
    and "storage_inv st"
  shows "world_inv w'"
  using assms by (simp add: world_inv_def)

lemma world_inv_same:
  assumes "world_inv w" and "live w' \<subseteq> live w" and "vecs w' = vecs w"
  shows "world_inv w'"
  using assms by (auto simp: world_inv_def)

lemma world_inv_move:
  assumes "world_inv w" and "b \<in> live w" and "live w' \<subseteq> insert a (live w)"
    and "vecs w' = (vecs w)(b := \<lparr>memory = 0, size_m = 0, max_size = 0\<rparr>, a := vecs w b)"
  shows "world_inv w'"
  using assms by (auto simp: world_inv_def storage_inv_unbacked)

lemma emplace_back_terminates:
  "fwd args = Inl e \<Longrightarrow> emplace_back T fwd construct a args w = Inl Terminate"
  by (simp add: emplace_back_def)

lemma emplace_back_throws:
  "fwd args = Inr temps \<Longrightarrow> construct temps = Inl e \<Longrightarrow>
     emplace_back T fwd construct a args w = Inr (Inl e, w)"
  by (simp add: emplace_back_def)

lemma emplace_back_constructs:
  "fwd args = Inr temps \<Longrightarrow> construct temps = Inr x \<Longrightarrow>
     emplace_back T fwd construct a args w
       = Inr (Inr (memory (vecs w a) + size_m (vecs w a) * sizeof_T T),
              w\<lparr>objs := (objs w)(memory (vecs w a) + size_m (vecs w a) * sizeof_T T \<mapsto> x),
                vecs := (vecs w)(a := (vecs w a)\<lparr>size_m := size_m (vecs w a) + 1\<rparr>)\<rparr>)"
  unfolding emplace_back_def Let_def
  by (simp add: uninitialized_grow_back_by_def set_size_def)

lemma world_inv_emplace:
  assumes "world_inv w" and "a \<in> live w" and "max_size (vecs w a) - size_m (vecs w a) > 0"
    and "emplace_back T fwd construct a args w = Inr (r, w')"
  shows "world_inv w'"
proof (cases "fwd args")
  case (Inl e)
  have "emplace_back T fwd construct a args w = Inl Terminate"
    using Inl by (simp add: emplace_back_def)
  with assms(4) show ?thesis by simp
next
  case temps: (Inr temps)
  show ?thesis
  proof (cases "construct temps")
    case (Inl e)
    have "emplace_back T fwd construct a args w = Inr (Inl e, w)"
      using temps Inl by (simp add: emplace_back_def)
    with assms(4) have "w' = w" by simp
    then show ?thesis using assms(1) by simp
  next
    case (Inr x)
    have i: "storage_inv ((vecs w a)\<lparr>size_m := size_m (vecs w a) + 1\<rparr>)"
      using assms(1,2,3) by (intro storage_inv_grow_one) (simp_all add: world_inv_def)
    have "emplace_back T fwd construct a args w
            = Inr (Inr (memory (vecs w a) + size_m (vecs w a) * sizeof_T T),
                   w\<lparr>objs := (objs w)(memory (vecs w a) + size_m (vecs w a) * sizeof_T T \<mapsto> x),
                     vecs := (vecs w)(a := (vecs w a)\<lparr>size_m := size_m (vecs w a) + 1\<rparr>)\<rparr>)"
      using temps Inr unfolding emplace_back_def Let_def
      by (simp add: uninitialized_grow_back_by_def set_size_def)
    with assms(4) have e: "w' = w\<lparr>objs := (objs w)(memory (vecs w a)
                                  + size_m (vecs w a) * sizeof_T T \<mapsto> x),
                     vecs := (vecs w)(a := (vecs w a)\<lparr>size_m := size_m (vecs w a) + 1\<rparr>)\<rparr>"
      by simp
    show ?thesis
      unfolding e by (rule world_inv_upd [OF assms(1) _ _ i]) simp_all
  qed
qed

lemma pop_back_frame:
  "live (pop_back T a w) = live w
   \<and> vecs (pop_back T a w) = (vecs w)(a := (vecs w a)\<lparr>size_m := size_m (vecs w a) - 1\<rparr>)"
  by (simp add: pop_back_def uninitialized_shrink_back_by_def set_size_def destroy_at_def Let_def)

lemma shrink_frame:
  "live (snd (uninitialized_shrink_back_by T a n w)) = live w
   \<and> vecs (snd (uninitialized_shrink_back_by T a n w))
       = (vecs w)(a := (vecs w a)\<lparr>size_m := size_m (vecs w a) - n\<rparr>)"
  by (simp add: uninitialized_shrink_back_by_def set_size_def Let_def)

lemma grow_frame:
  "live (uninitialized_grow_back_by a n w) = live w
   \<and> vecs (uninitialized_grow_back_by a n w)
       = (vecs w)(a := (vecs w a)\<lparr>size_m := size_m (vecs w a) + n\<rparr>)"
  by (simp add: uninitialized_grow_back_by_def set_size_def)

section \<open>The concrete worlds are what the code produces\<close>

lemma alloc_two_ints:
  "guarded_alloc granting_os [] 8 4 = Inr (69624, [Reserve 65536 8192, Guard 69632 4096])"
  by (simp add: guarded_alloc_def os_guarded_alloc_def granting_os_def ceil_multiple_def
        add_overflows_def SIZE_TYPE_MAX_def PAGE_SIZE_def)

lemma two_int_world_made:
  "with_max_size_or_null granting_os int_traits 0 2 empty_world = Inr two_int_world"
  unfolding with_max_size_or_null_def storage_sized_def
  by (simp add: int_traits_def empty_world_def two_int_world_def alloc_two_ints)

section \<open>Preservation of the invariant\<close>

lemma ovector_dtor_frame:
  assumes "ovector_dtor sys T a w = Inr w'"
  shows "vecs w' = vecs (clear T a w) \<and> live w' = live w - {a}"
proof (cases "deallocate sys T a (clear T a w)")
  case (Inl f)
  have "ovector_dtor sys T a w = Inl f" unfolding ovector_dtor_def Let_def Inl by simp
  with assms show ?thesis by simp
next
  case (Inr w2)
  have "ovector_dtor sys T a w = Inr (w2\<lparr>live := live w2 - {a}\<rparr>)"
    unfolding ovector_dtor_def Let_def Inr by simp
  with assms have "w' = w2\<lparr>live := live w2 - {a}\<rparr>" by simp
  then have "vecs w' = vecs w2" "live w' = live w2 - {a}" by simp_all
  then show ?thesis
    using deallocate_frame [OF Inr] clear_frame [of T a w] by simp
qed

lemma reachable_world_inv:
  assumes "reachable sys T construct copy w"
  shows "world_inv w"
  using assms
proof (induction rule: reachable.induct)
  case (start w)
  then show ?case by (simp add: world_inv_def)
next
  case (default_construct w a)
  have "live (ovector_default a w) = insert a (live w)"
       "vecs (ovector_default a w) = (vecs w)(a := \<lparr>memory = 0, size_m = 0, max_size = 0\<rparr>)"
    by (simp_all add: ovector_default_def storage_default_def)
  with default_construct.IH show ?case
    by (simp add: world_inv_def storage_inv_unbacked)
next
  case (sized_construct w a n w')
  from sized_construct.hyps(3) obtain w1 where
    s: "storage_sized sys T a n w = Inr w1" and w': "w' = w1\<lparr>live := insert a (live w1)\<rparr>"
    by (auto simp: with_max_size_or_null_def split: sum.splits)
  from storage_sized_inv [OF s] sized_construct.IH show ?case
    by (auto simp: world_inv_def w')
next
  case (move_construct w a b)
  show ?case
    by (rule world_inv_move [OF move_construct.IH move_construct.hyps(3), of _ a])
       (simp_all add: ovector_move_ctor_def storage_move_ctor_eq)
next
  case (move_assign w a b w')
  note e = ovector_move_assign_vecs [OF move_assign.hyps(4)]
  have "world_inv (clear T a w)" using move_assign.IH by (rule world_inv_clear)
  moreover have "b \<in> live (clear T a w)" using move_assign.hyps(3) by (simp add: clear_frame)
  moreover have "live w' \<subseteq> insert a (live (clear T a w))" using e(2) by (auto simp: clear_frame)
  ultimately show ?case using e(1) by (rule world_inv_move)
next
  case (swap w a b)
  then show ?case by (simp add: world_inv_def swap_ov_eq)
next
  case (emplace w a fwd args r w')
  show ?case by (rule world_inv_emplace [OF emplace.IH emplace.hyps(2,4,5)])
next
  case (push w a from_temp v r w')
  show ?case
    by (rule world_inv_emplace [OF push.IH push.hyps(2,4) push.hyps(5) [unfolded push_back_def]])
next
  case (pop w a)
  then have "storage_inv ((vecs w a)\<lparr>size_m := size_m (vecs w a) - 1\<rparr>)"
    by (intro storage_inv_pop) (simp_all add: world_inv_def)
  then show ?case
    by (rule world_inv_upd [OF pop.IH, rotated 2]) (simp_all add: pop_back_frame)
next
  case (clear w a)
  show ?case by (rule world_inv_clear [OF clear.IH])
next
  case (grow w a n)
  then have "storage_inv ((vecs w a)\<lparr>size_m := size_m (vecs w a) + n\<rparr>)"
    by (simp add: world_inv_def storage_inv_def)
  then show ?case
    by (rule world_inv_upd [OF grow.IH, rotated 2]) (simp_all add: grow_frame)
next
  case (shrink w a n)
  then have "storage_inv ((vecs w a)\<lparr>size_m := size_m (vecs w a) - n\<rparr>)"
    by (intro storage_inv_shrink) (simp_all add: world_inv_def)
  then show ?case
    by (rule world_inv_upd [OF shrink.IH, rotated 2]) (simp_all add: shrink_frame)
next
  case (destroy w a w')
  have "world_inv (clear T a w)" using destroy.IH by (rule world_inv_clear)
  then show ?case
    by (rule world_inv_same) (simp_all add: ovector_dtor_frame [OF destroy.hyps(3)] clear_frame)
qed

section \<open>The invariant holds in every reachable state\<close>

text \<open>
  Claim C6. In every world reached from one with no container through default
  construction, \<^verbatim>\<open>with_max_size_or_null\<close>, move construction, move assignment, swap,
  destruction, and the element operations (\<^verbatim>\<open>emplace_back\<close>, \<^verbatim>\<open>push_back\<close>, \<^verbatim>\<open>pop_back\<close>,
  \<^verbatim>\<open>clear\<close>, \<^verbatim>\<open>uninitialized_grow_back_by\<close>, \<^verbatim>\<open>uninitialized_shrink_back_by\<close>) under their
  documented preconditions, every live container has capacity 0 exactly when its base
  pointer is null, and its size is at most its capacity.
\<close>

theorem reachable_storage_invariant:
  assumes "reachable sys T construct copy w" and "a \<in> live w"
  shows "(max_size (vecs w a) = 0 \<longleftrightarrow> memory (vecs w a) = 0)
         \<and> size_m (vecs w a) \<le> max_size (vecs w a)"
  using reachable_world_inv [OF assms(1)] assms(2)
  by (simp add: world_inv_def storage_inv_def)

theorem reachable_storage_invariant_witness:
  "\<exists>w'. emplace_back int_traits copy_int checked_ctor 0 7 two_int_world = Inr (Inr 69624, w')
      \<and> reachable granting_os int_traits checked_ctor copy_int w'
      \<and> 0 \<in> live w'
      \<and> max_size (vecs w' 0) = 2
      \<and> memory (vecs w' 0) = 69624
      \<and> size_m (vecs w' 0) = 1
      \<and> (1 :: size_type) \<le> 2"
proof -
  let ?w = "two_int_world
             \<lparr>objs := (objs two_int_world)
                 (memory (vecs two_int_world 0) + size_m (vecs two_int_world 0) * sizeof_T int_traits
                    \<mapsto> 7),
              vecs := (vecs two_int_world)
                 (0 := (vecs two_int_world 0)\<lparr>size_m := size_m (vecs two_int_world 0) + 1\<rparr>)\<rparr>"
  have f: "copy_int 7 = Inr 7" by (simp add: copy_int_def)
  have c: "checked_ctor 7 = Inr 7" by (simp add: checked_ctor_def)
  have b: "memory (vecs two_int_world 0) + size_m (vecs two_int_world 0) * sizeof_T int_traits
             = 69624"
    by (simp add: two_int_world_def int_traits_def)
  have e: "emplace_back int_traits copy_int checked_ctor 0 7 two_int_world = Inr (Inr 69624, ?w)"
    using emplace_back_constructs [of copy_int 7 7 checked_ctor 7 int_traits 0 two_int_world, OF f c]
    by (simp only: b)
  have v: "vecs ?w 0 = \<lparr>memory = 69624, size_m = 1, max_size = 2\<rparr>"
    by (simp add: two_int_world_def)
  have l: "0 \<in> live ?w" by (simp add: two_int_world_def)
  have r0: "reachable granting_os int_traits checked_ctor copy_int (empty_world :: int world)"
    by (rule reachable.start) (simp add: empty_world_def)
  have r1: "reachable granting_os int_traits checked_ctor copy_int two_int_world"
    by (rule reachable.sized_construct [OF r0 _ two_int_world_made]) (simp add: empty_world_def)
  have r2: "reachable granting_os int_traits checked_ctor copy_int ?w"
    by (rule reachable.emplace [OF r1 _ _ _ e]) (simp_all add: two_int_world_def)
  from reachable_storage_invariant [OF r2 l] have "(1 :: size_type) \<le> 2"
    by (simp only: v ovector_storage.simps)
  with e r2 l v show ?thesis by (intro exI [of _ ?w]) simp
qed

section \<open>Sized construction\<close>

text \<open>
  Claim C5. For every count \<open>n\<close>, when the allocator returns (pointer \<open>p\<close>, null on failure),
  \<^verbatim>\<open>with_max_size_or_null(n)\<close> yields a container whose \<^verbatim>\<open>data()\<close> is \<open>p\<close> and whose size is 0;
  its \<^verbatim>\<open>max_size()\<close> is \<open>n\<close> when the allocation succeeded (\<open>p\<close> not null) and 0 when it did
  not. For a data size of 0 the allocator returns null at once, without a call to the
  operating system, so for \<open>n = 0\<close> the container is unbacked.
\<close>

theorem with_max_size_or_null_result:
  assumes "guarded_alloc sys (os_trace w) (n * sizeof_T T) (sizeof_T T) = Inr (p, tr')"
  shows "(\<exists>w'. with_max_size_or_null sys T a n w = Inr w'
               \<and> memory (vecs w' a) = p \<and> size_m (vecs w' a) = 0
               \<and> (p \<noteq> 0 \<longrightarrow> max_size (vecs w' a) = n)
               \<and> (p = 0 \<longrightarrow> max_size (vecs w' a) = 0))
         \<and> guarded_alloc sys (os_trace w) 0 (sizeof_T T) = Inr (0, os_trace w)
         \<and> (n = 0 \<longrightarrow> p = 0 \<and> tr' = os_trace w)"
proof -
  have z: "guarded_alloc sys (os_trace w) 0 (sizeof_T T) = Inr (0, os_trace w)"
    by (simp add: guarded_alloc_def)
  have "n = 0 \<longrightarrow> p = 0 \<and> tr' = os_trace w"
    using assms z by auto
  moreover have "\<exists>w'. with_max_size_or_null sys T a n w = Inr w'
               \<and> memory (vecs w' a) = p \<and> size_m (vecs w' a) = 0
               \<and> (p \<noteq> 0 \<longrightarrow> max_size (vecs w' a) = n)
               \<and> (p = 0 \<longrightarrow> max_size (vecs w' a) = 0)"
    unfolding with_max_size_or_null_def storage_sized_def assms by simp
  ultimately show ?thesis using z by blast
qed

theorem with_max_size_or_null_result_witness:
  "guarded_alloc granting_os (os_trace (empty_world :: int world)) (2 * sizeof_T int_traits)
       (sizeof_T int_traits) = Inr (69624, [Reserve 65536 8192, Guard 69632 4096])
   \<and> (\<exists>w'. with_max_size_or_null granting_os int_traits 0 2 (empty_world :: int world) = Inr w'
          \<and> memory (vecs w' 0) = 69624 \<and> size_m (vecs w' 0) = 0 \<and> max_size (vecs w' 0) = 2)
   \<and> guarded_alloc granting_os (os_trace (empty_world :: int world)) (0 * sizeof_T int_traits)
       (sizeof_T int_traits) = Inr (0, [])
   \<and> (\<exists>w'. with_max_size_or_null granting_os int_traits 0 0 (empty_world :: int world) = Inr w'
          \<and> memory (vecs w' 0) = 0 \<and> size_m (vecs w' 0) = 0 \<and> max_size (vecs w' 0) = 0)"
proof -
  have h: "guarded_alloc granting_os (os_trace (empty_world :: int world))
             (2 * sizeof_T int_traits) (sizeof_T int_traits)
           = Inr (69624, [Reserve 65536 8192, Guard 69632 4096])"
    by (simp add: empty_world_def int_traits_def alloc_two_ints)
  have z: "guarded_alloc granting_os (os_trace (empty_world :: int world))
             (0 * sizeof_T int_traits) (sizeof_T int_traits) = Inr (0, [])"
    by (simp add: empty_world_def guarded_alloc_def)
  have "\<exists>w'. with_max_size_or_null granting_os int_traits 0 2 (empty_world :: int world) = Inr w'
          \<and> memory (vecs w' 0) = 69624 \<and> size_m (vecs w' 0) = 0 \<and> max_size (vecs w' 0) = 2"
    using with_max_size_or_null_result [OF h, of 0] by auto
  moreover
  have "\<exists>w'. with_max_size_or_null granting_os int_traits 0 0 (empty_world :: int world) = Inr w'
          \<and> memory (vecs w' 0) = 0 \<and> size_m (vecs w' 0) = 0 \<and> max_size (vecs w' 0) = 0"
    using with_max_size_or_null_result [OF z, of 0] by auto
  ultimately show ?thesis using h z by blast
qed

text \<open>
  Claim C1, at an input where it fails. The storage constructor multiplies the count by
  \<^verbatim>\<open>sizeof(T)\<close> in \<^verbatim>\<open>size_type\<close> with no check. For \<^verbatim>\<open>int\<close> (4 bytes) and the count
  \<open>2\<^sup>6\<^sup>2 + 1\<close> the exact byte size \<open>2\<^sup>6\<^sup>4 + 4\<close> overflows and wraps to 4; the allocator
  is asked for 4 bytes, the operating system grants two pages, and the container is
  backed, with \<^verbatim>\<open>max_size()\<close> equal to \<open>2\<^sup>6\<^sup>2 + 1\<close>. The overflows of the rounding and of
  the sum of the rounded sizes are the ones \<^verbatim>\<open>guarded_alloc\<close> checks.
\<close>

theorem multiplication_overflow_allocates:
  "2 ^ 64 \<le> unat (4611686018427387905 :: size_type) * unat (sizeof_T int_traits)
   \<and> (\<exists>w'. with_max_size_or_null granting_os int_traits 0 4611686018427387905
              (empty_world :: int world) = Inr w'
          \<and> memory (vecs w' 0) = 69628
          \<and> max_size (vecs w' 0) = 4611686018427387905
          \<and> os_trace w' = [Reserve 65536 8192, Guard 69632 4096])"
proof -
  have g: "guarded_alloc granting_os [] 4 4 = Inr (69628, [Reserve 65536 8192, Guard 69632 4096])"
    by (simp add: guarded_alloc_def os_guarded_alloc_def granting_os_def ceil_multiple_def
          add_overflows_def SIZE_TYPE_MAX_def PAGE_SIZE_def)
  have m: "(18446744073709551620 :: size_type) = 4" by simp
  have "\<exists>w'. with_max_size_or_null granting_os int_traits 0 4611686018427387905
              (empty_world :: int world) = Inr w'
          \<and> memory (vecs w' 0) = 69628
          \<and> max_size (vecs w' 0) = 4611686018427387905
          \<and> os_trace w' = [Reserve 65536 8192, Guard 69632 4096]"
    unfolding with_max_size_or_null_def storage_sized_def
    by (simp add: int_traits_def empty_world_def m g)
  moreover have "2 ^ 64 \<le> unat (4611686018427387905 :: size_type) * unat (sizeof_T int_traits)"
    by (simp add: int_traits_def)
  ultimately show ?thesis by simp
qed

section \<open>Appending an element\<close>



text \<open>
  \<^verbatim>\<open>push_back(T const&)\<close> copies its argument inside the \<^verbatim>\<open>noexcept\<close> \<^verbatim>\<open>inlined_forward\<close>: when the
  copy constructor of \<^verbatim>\<open>T\<close> throws, the exception does not reach the caller and the process
  is ended by \<^verbatim>\<open>std::terminate\<close>.
\<close>

theorem push_back_throwing_copy_terminates:
  assumes "copy v = Inl e"
  shows "push_back T copy from_temp a v w = Inl Terminate"
  using assms by (simp add: push_back_def emplace_back_def)

theorem push_back_throwing_copy_terminates_witness:
  "throwing_copy 7 = Inl ''copy failed''
   \<and> push_back int_traits throwing_copy copy_int 0 7 two_int_world = Inl Terminate"
proof -
  have t: "throwing_copy 7 = Inl ''copy failed''" by (simp add: throwing_copy_def)
  from push_back_throwing_copy_terminates [of throwing_copy 7, OF t] t show ?thesis by simp
qed

section \<open>Clearing\<close>

text \<open>
  Claim C8. On a backed container of size \<open>k\<close>, \<^verbatim>\<open>clear()\<close> invokes the destructor on exactly
  the \<open>k\<close> addresses \<^verbatim>\<open>data() + 0\<close>, ..., \<^verbatim>\<open>data() + (k - 1)\<close>, in this order, when the element
  type is not trivially destructible, and invokes no destructor when it is. Either way the
  size becomes 0, the capacity and the base pointer are unchanged, no other container
  changes, and nothing is asked of the operating system (the reservation is kept).
\<close>

theorem clear_destroys_in_index_order:
  assumes "memory (vecs w a) \<noteq> 0"
  shows "dtor_log (clear T a w)
           = dtor_log w @
             (if trivially_destructible T then []
              else map (\<lambda>k. memory (vecs w a) + of_nat k * sizeof_T T)
                     [0..<unat (size_m (vecs w a))])
         \<and> size_m (vecs (clear T a w) a) = 0
         \<and> max_size (vecs (clear T a w) a) = max_size (vecs w a)
         \<and> memory (vecs (clear T a w) a) = memory (vecs w a)
         \<and> os_trace (clear T a w) = os_trace w
         \<and> live (clear T a w) = live w
         \<and> vecs (clear T a w) = (vecs w)(a := (vecs w a)\<lparr>size_m := 0\<rparr>)"
  using assms by (simp add: clear_dtor_log clear_vecs clear_frame)

theorem clear_destroys_in_index_order_witness:
  "memory (vecs three_counted_world 0) \<noteq> 0
   \<and> dtor_log (clear dtor_counted_traits 0 three_counted_world) = [69629, 69630, 69631]
   \<and> dtor_log (clear (dtor_counted_traits\<lparr>trivially_destructible := True\<rparr>) 0 three_counted_world) = []
   \<and> size_m (vecs (clear dtor_counted_traits 0 three_counted_world) 0) = 0
   \<and> max_size (vecs (clear dtor_counted_traits 0 three_counted_world) 0) = 3
   \<and> memory (vecs (clear dtor_counted_traits 0 three_counted_world) 0) = 69629
   \<and> os_trace (clear dtor_counted_traits 0 three_counted_world)
       = [Reserve 65536 8192, Guard 69632 4096]"
proof -
  have m: "memory (vecs three_counted_world 0) \<noteq> 0"
    by (simp add: three_counted_world_def)
  have f: "vecs three_counted_world 0 = \<lparr>memory = 69629, size_m = 3, max_size = 3\<rparr>"
    "dtor_log three_counted_world = []"
    "os_trace three_counted_world = [Reserve 65536 8192, Guard 69632 4096]"
    by (simp_all add: three_counted_world_def)
  have u: "[0..<3] = [0, 1, 2 :: nat]"
    by (simp add: upt_rec)
  from clear_destroys_in_index_order [OF m, where T = dtor_counted_traits]
       clear_destroys_in_index_order
         [OF m, where T = "dtor_counted_traits\<lparr>trivially_destructible := True\<rparr>"]
  show ?thesis
    using m by (simp add: f dtor_counted_traits_def u)
qed

section \<open>Equality\<close>

lemma std_equal_those:
  "those (map (\<lambda>k. h (p + of_nat k * esz)) [0..<n]) = Some xs \<Longrightarrow>
   those (map (\<lambda>k. h (q + of_nat k * esz)) [0..<n]) = Some ys \<Longrightarrow>
   std_equal eq esz h p q n = Some (list_all2 eq xs ys)"
proof (induction n arbitrary: p q xs ys)
  case 0
  then show ?case by simp
next
  case (Suc n)
  have sh: "\<And>r. map (\<lambda>k. h (r + of_nat k * esz)) [0..<Suc n]
              = h r # map (\<lambda>k. h ((r + esz) + of_nat k * esz)) [0..<n]"
    by (simp add: upt_conv_Cons map_Suc_upt [symmetric] comp_def algebra_simps
             del: upt_Suc)
  from Suc.prems(1) obtain x xs' where
    x: "h p = Some x" and
    xs': "those (map (\<lambda>k. h ((p + esz) + of_nat k * esz)) [0..<n]) = Some xs'" and
    xs: "xs = x # xs'"
    unfolding sh by (auto split: option.splits)
  from Suc.prems(2) obtain y ys' where
    y: "h q = Some y" and
    ys': "those (map (\<lambda>k. h ((q + esz) + of_nat k * esz)) [0..<n]) = Some ys'" and
    ys: "ys = y # ys'"
    unfolding sh by (auto split: option.splits)
  have "std_equal eq esz h (p + esz) (q + esz) n = Some (list_all2 eq xs' ys')"
    using xs' ys' by (rule Suc.IH)
  then show ?case by (simp add: x y xs ys)
qed

lemma length_those: "those os = Some xs \<Longrightarrow> length xs = length os"
  by (induction os arbitrary: xs) (auto split: option.splits)

text \<open>
  Claim C9. For two containers whose slots below their sizes all hold elements, \<open>xs\<close> and
  \<open>ys\<close> in insertion order, \<^verbatim>\<open>operator==\<close> returns true exactly when the sizes are equal and
  the elements are pairwise equal (by the element type's \<^verbatim>\<open>operator==\<close>) in that order;
  \<^verbatim>\<open>operator!=\<close> returns the negation; and the result is the same whatever the two
  capacities are.
\<close>

theorem op_eq_iff_same_elements:
  assumes "elements T h lhs = Some xs" and "elements T h rhs = Some ys"
  shows "op_eq eq T h lhs rhs = Some (size_m lhs = size_m rhs \<and> list_all2 eq xs ys)
         \<and> op_ne eq T h lhs rhs = Some (\<not> (size_m lhs = size_m rhs \<and> list_all2 eq xs ys))
         \<and> op_eq eq T h (lhs\<lparr>max_size := c1\<rparr>) (rhs\<lparr>max_size := c2\<rparr>) = op_eq eq T h lhs rhs
         \<and> length xs = unat (size_m lhs) \<and> length ys = unat (size_m rhs)"
proof -
  have e: "op_eq eq T h lhs rhs = Some (size_m lhs = size_m rhs \<and> list_all2 eq xs ys)"
  proof (cases "size_m lhs = size_m rhs")
    case True
    have "std_equal eq (sizeof_T T) h (memory lhs) (memory rhs) (unat (size_m lhs))
            = Some (list_all2 eq xs ys)"
      using assms unfolding elements_def True by (rule std_equal_those)
    then show ?thesis using True by (simp add: op_eq_def)
  next
    case False
    then show ?thesis by (simp add: op_eq_def)
  qed
  have l: "length xs = unat (size_m lhs)" "length ys = unat (size_m rhs)"
    using assms length_those unfolding elements_def by fastforce+
  have "op_eq eq T h (lhs\<lparr>max_size := c1\<rparr>) (rhs\<lparr>max_size := c2\<rparr>) = op_eq eq T h lhs rhs"
    by (simp add: op_eq_def)
  then show ?thesis using e l by (simp add: op_ne_def)
qed

theorem op_eq_iff_same_elements_witness:
  "elements int_traits int_heap \<lparr>memory = 100, size_m = 2, max_size = 2\<rparr> = Some [1, 2]
   \<and> elements int_traits int_heap \<lparr>memory = 200, size_m = 2, max_size = 9\<rparr> = Some [1, 2]
   \<and> elements int_traits int_heap \<lparr>memory = 300, size_m = 2, max_size = 2\<rparr> = Some [1, 5]
   \<and> op_eq (=) int_traits int_heap \<lparr>memory = 100, size_m = 2, max_size = 2\<rparr>
        \<lparr>memory = 200, size_m = 2, max_size = 9\<rparr> = Some True
   \<and> op_ne (=) int_traits int_heap \<lparr>memory = 100, size_m = 2, max_size = 2\<rparr>
        \<lparr>memory = 200, size_m = 2, max_size = 9\<rparr> = Some False
   \<and> op_eq (=) int_traits int_heap \<lparr>memory = 100, size_m = 2, max_size = 2\<rparr>
        \<lparr>memory = 300, size_m = 2, max_size = 2\<rparr> = Some False"
proof -
  have u: "[0..<2] = [0, 1 :: nat]" by (simp add: upt_rec)
  have a: "elements int_traits int_heap \<lparr>memory = 100, size_m = 2, max_size = 2\<rparr> = Some [1, 2]"
    and b: "elements int_traits int_heap \<lparr>memory = 200, size_m = 2, max_size = 9\<rparr> = Some [1, 2]"
    and c: "elements int_traits int_heap \<lparr>memory = 300, size_m = 2, max_size = 2\<rparr> = Some [1, 5]"
    by (simp_all add: elements_def int_traits_def int_heap_def u)
  from op_eq_iff_same_elements [OF a b, of "(=)"] op_eq_iff_same_elements [OF a c, of "(=)"]
  show ?thesis using a b c by simp
qed

section \<open>Moving\<close>

lemma ovector_move_assign_returns:
  assumes "a = b \<or> memory (vecs w a) = 0
           \<or> munmap sys (os_trace w)
                (memory (vecs w a)
                   - (ceil_multiple (max_size (vecs w a) * sizeof_T T) PAGE_SIZE
                      - max_size (vecs w a) * sizeof_T T))
                (ceil_multiple (max_size (vecs w a) * sizeof_T T) PAGE_SIZE
                   + ceil_multiple (sizeof_T T) PAGE_SIZE)"
  shows "\<exists>w'. ovector_move_assign sys T a b w = Inr w'"
proof -
  let ?c = "clear T a w"
  let ?w2 = "?c\<lparr>vecs := (vecs ?c)(b := \<lparr>memory = 0, size_m = 0, max_size = 0\<rparr>)\<rparr>"
  have "\<exists>w0. deallocate sys T a ?w2 = Inr w0"
  proof (cases "a = b")
    case True
    then show ?thesis by (simp add: deallocate_def)
  next
    case False
    then show ?thesis
      using assms
      by (auto simp: deallocate_def guarded_dealloc_def os_dealloc_def Let_def clear_vecs
            clear_frame)
  qed
  then show ?thesis
    unfolding ovector_move_assign_eq by auto
qed

text \<open>
  Claim C7. For two distinct containers \<open>a\<close> (destination) and \<open>b\<close> (source): after move
  assignment \<open>a\<close> holds exactly the base pointer, size and capacity \<open>b\<close> had, and \<open>b\<close> is
  unbacked (null, 0, 0). Before that the assignment ran \<^verbatim>\<open>clear()\<close> on \<open>a\<close>, destroying its
  elements in index order (no destructor call when the type is trivially destructible
  or \<open>a\<close> was unbacked), and, when \<open>a\<close> was backed, released its reservation with one
  call to the operating system. Move construction of \<open>a\<close> from \<open>b\<close> transfers and resets
  in the same way, and neither destroys nor releases anything.
\<close>

theorem move_transfers_and_resets:
  assumes "a \<noteq> b" and "ovector_move_assign sys T a b w = Inr w'"
  shows "vecs w' a = vecs w b
         \<and> vecs w' b = \<lparr>memory = 0, size_m = 0, max_size = 0\<rparr>
         \<and> dtor_log w' = dtor_log (clear T a w)
         \<and> dtor_log w' = dtor_log w @
              (if trivially_destructible T \<or> memory (vecs w a) = 0 then []
               else map (\<lambda>k. memory (vecs w a) + of_nat k * sizeof_T T)
                      [0..<unat (size_m (vecs w a))])
         \<and> os_trace w' = os_trace w @
              (if memory (vecs w a) = 0 then []
               else [Release (memory (vecs w a)
                               - (ceil_multiple (max_size (vecs w a) * sizeof_T T) PAGE_SIZE
                                  - max_size (vecs w a) * sizeof_T T))
                             (ceil_multiple (max_size (vecs w a) * sizeof_T T) PAGE_SIZE
                               + ceil_multiple (sizeof_T T) PAGE_SIZE)])
         \<and> vecs (ovector_move_ctor a b w) a = vecs w b
         \<and> vecs (ovector_move_ctor a b w) b = \<lparr>memory = 0, size_m = 0, max_size = 0\<rparr>
         \<and> dtor_log (ovector_move_ctor a b w) = dtor_log w
         \<and> os_trace (ovector_move_ctor a b w) = os_trace w"
proof -
  note e = ovector_move_assign_vecs [OF assms(2)]
  have "vecs (clear T a w) b = vecs w b" using assms(1) by (simp add: clear_vecs)
  then have "vecs w' a = vecs w b" "vecs w' b = \<lparr>memory = 0, size_m = 0, max_size = 0\<rparr>"
    using assms(1) by (simp_all add: e(1))
  moreover have "vecs (ovector_move_ctor a b w) a = vecs w b"
    "vecs (ovector_move_ctor a b w) b = \<lparr>memory = 0, size_m = 0, max_size = 0\<rparr>"
    "dtor_log (ovector_move_ctor a b w) = dtor_log w"
    "os_trace (ovector_move_ctor a b w) = os_trace w"
    using assms(1) by (simp_all add: ovector_move_ctor_def storage_move_ctor_eq)
  ultimately show ?thesis
    using e(3,4) assms(1) by (simp add: clear_dtor_log)
qed

theorem move_transfers_and_resets_witness:
  "(0 :: vid) \<noteq> 1
   \<and> (\<exists>w'. ovector_move_assign granting_os int_traits 0 1 two_vec_world = Inr w'
          \<and> vecs w' 0 = \<lparr>memory = 135156, size_m = 2, max_size = 3\<rparr>
          \<and> vecs w' 1 = \<lparr>memory = 0, size_m = 0, max_size = 0\<rparr>
          \<and> dtor_log w' = []
          \<and> os_trace w' = [Reserve 65536 8192, Guard 69632 4096,
                            Reserve 131072 8192, Guard 135168 4096, Release 65536 8192])"
proof -
  have f: "vecs two_vec_world 0 = \<lparr>memory = 69624, size_m = 1, max_size = 2\<rparr>"
    "vecs two_vec_world (Suc 0) = \<lparr>memory = 135156, size_m = 2, max_size = 3\<rparr>"
    "dtor_log two_vec_world = []"
    "os_trace two_vec_world = [Reserve 65536 8192, Guard 69632 4096,
                               Reserve 131072 8192, Guard 135168 4096]"
    by (simp_all add: two_vec_world_def)
  have c: "ceil_multiple 8 PAGE_SIZE = 4096" "ceil_multiple 4 PAGE_SIZE = 4096"
    by (simp_all add: ceil_multiple_def PAGE_SIZE_def)
  have "\<exists>w'. ovector_move_assign granting_os int_traits 0 1 two_vec_world = Inr w'"
    by (rule ovector_move_assign_returns) (simp add: granting_os_def)
  then obtain w' where h: "ovector_move_assign granting_os int_traits 0 1 two_vec_world = Inr w'" ..
  have n: "(0 :: vid) \<noteq> 1" by simp
  from move_transfers_and_resets [OF n h]
  have "vecs w' 0 = \<lparr>memory = 135156, size_m = 2, max_size = 3\<rparr>
          \<and> vecs w' 1 = \<lparr>memory = 0, size_m = 0, max_size = 0\<rparr>
          \<and> dtor_log w' = []
          \<and> os_trace w' = [Reserve 65536 8192, Guard 69632 4096,
                            Reserve 131072 8192, Guard 135168 4096, Release 65536 8192]"
    by (simp add: f int_traits_def c clear_dtor_log)
  with h n show ?thesis by blast
qed

text \<open>
  Claim C10, at an input where it fails. The claim has the reservation released by
  \<^verbatim>\<open>deallocate()\<close> when a backed container is move-assigned to itself. In the world with two
  containers of \<^verbatim>\<open>int\<close>s, move assignment of container 0 to itself returns, and the trace of
  operating system calls afterwards is the trace before: it holds no release at all.
\<close>

theorem self_move_assign_release_counterexample:
  "(\<exists>w'. ovector_move_assign granting_os int_traits 0 0 two_vec_world = Inr w'
        \<and> os_trace w' = os_trace two_vec_world)
   \<and> \<not> (\<exists>w' p n. ovector_move_assign granting_os int_traits 0 0 two_vec_world = Inr w'
                  \<and> Release p n \<in> set (os_trace w'))"
proof -
  have "\<exists>w'. ovector_move_assign granting_os int_traits 0 0 two_vec_world = Inr w'"
    by (rule ovector_move_assign_returns) simp
  then obtain w' where h: "ovector_move_assign granting_os int_traits 0 0 two_vec_world = Inr w'" ..
  have t: "os_trace w' = os_trace two_vec_world"
    using ovector_move_assign_vecs(4) [OF h] by simp
  have "\<And>p n. Release p n \<notin> set (os_trace two_vec_world)"
    by (simp add: two_vec_world_def)
  with h t show ?thesis by auto
qed

text \<open>
  Claim C10, amended. Move assignment of a backed container to itself always returns and
  does not leave the container unbacked: afterwards its base pointer is the non-null
  pointer it had, its capacity is the non-zero capacity it had, and its size is 0, after
  \<^verbatim>\<open>clear()\<close> destroyed the elements. The reservation is not released and the pointer does not
  dangle: \<^verbatim>\<open>inlined_move\<close> returns a temporary storage by value, which takes the three members
  and leaves the container null, so \<^verbatim>\<open>deallocate()\<close> finds a null pointer and asks nothing of
  the operating system; the exchanges then hand the members back from the temporary.
\<close>

theorem self_move_assign_keeps_reservation:
  assumes "memory (vecs w a) \<noteq> 0" and "max_size (vecs w a) \<noteq> 0"
  shows "\<exists>w'. ovector_move_assign sys T a a w = Inr w'
           \<and> memory (vecs w' a) = memory (vecs w a) \<and> memory (vecs w' a) \<noteq> 0
           \<and> max_size (vecs w' a) = max_size (vecs w a) \<and> max_size (vecs w' a) \<noteq> 0
           \<and> size_m (vecs w' a) = 0
           \<and> vecs w' a \<noteq> \<lparr>memory = 0, size_m = 0, max_size = 0\<rparr>
           \<and> dtor_log w' = dtor_log (clear T a w)
           \<and> os_trace w' = os_trace w"
proof -
  have "\<exists>w'. ovector_move_assign sys T a a w = Inr w'"
    by (rule ovector_move_assign_returns) simp
  then obtain w' where h: "ovector_move_assign sys T a a w = Inr w'" ..
  note e = ovector_move_assign_vecs [OF h]
  have v: "vecs w' a = (vecs w a)\<lparr>size_m := 0\<rparr>"
    using assms(1) by (simp add: e(1) clear_vecs)
  have "vecs w' a \<noteq> \<lparr>memory = 0, size_m = 0, max_size = 0\<rparr>"
  proof
    assume "vecs w' a = \<lparr>memory = 0, size_m = 0, max_size = 0\<rparr>"
    then have "memory (vecs w' a) = 0" by simp
    then show False using assms(1) by (simp add: v)
  qed
  moreover have "os_trace w' = os_trace w" using e(4) by simp
  ultimately have "memory (vecs w' a) = memory (vecs w a) \<and> memory (vecs w' a) \<noteq> 0
           \<and> max_size (vecs w' a) = max_size (vecs w a) \<and> max_size (vecs w' a) \<noteq> 0
           \<and> size_m (vecs w' a) = 0
           \<and> vecs w' a \<noteq> \<lparr>memory = 0, size_m = 0, max_size = 0\<rparr>
           \<and> dtor_log w' = dtor_log (clear T a w)
           \<and> os_trace w' = os_trace w"
    using assms e(3) by (simp add: v)
  with h show ?thesis by blast
qed

theorem self_move_assign_keeps_reservation_witness:
  "memory (vecs two_vec_world 0) \<noteq> 0 \<and> max_size (vecs two_vec_world 0) \<noteq> 0
   \<and> (\<exists>w'. ovector_move_assign granting_os int_traits 0 0 two_vec_world = Inr w'
          \<and> vecs w' 0 = \<lparr>memory = 69624, size_m = 0, max_size = 2\<rparr>
          \<and> os_trace w' = [Reserve 65536 8192, Guard 69632 4096,
                            Reserve 131072 8192, Guard 135168 4096])"
proof -
  have f: "vecs two_vec_world 0 = \<lparr>memory = 69624, size_m = 1, max_size = 2\<rparr>"
    "os_trace two_vec_world = [Reserve 65536 8192, Guard 69632 4096,
                               Reserve 131072 8192, Guard 135168 4096]"
    by (simp_all add: two_vec_world_def)
  have m: "memory (vecs two_vec_world 0) \<noteq> 0" and c: "max_size (vecs two_vec_world 0) \<noteq> 0"
    by (simp_all add: f)
  from self_move_assign_keeps_reservation [OF m c, of granting_os int_traits]
  obtain w' where h: "ovector_move_assign granting_os int_traits 0 0 two_vec_world = Inr w'"
    and r: "memory (vecs w' 0) = memory (vecs two_vec_world 0)"
           "max_size (vecs w' 0) = max_size (vecs two_vec_world 0)"
           "size_m (vecs w' 0) = 0"
           "os_trace w' = os_trace two_vec_world"
    by blast
  have "vecs w' 0 = \<lparr>memory = 69624, size_m = 0, max_size = 2\<rparr>"
    using r(1,2,3) by (cases "vecs w' 0") (simp add: f)
  with h m c r(4) show ?thesis by (auto simp: f)
qed

section \<open>Swapping and removing the last element\<close>

text \<open>
  \<^verbatim>\<open>swap\<close> exchanges the base pointers, sizes and capacities of the two containers, also
  when both are the same container; no element is constructed or destroyed and nothing is
  asked of the operating system.
\<close>

theorem swap_exchanges_fields:
  "vecs (swap_ov a b w) = (vecs w)(a := vecs w b, b := vecs w a)
   \<and> objs (swap_ov a b w) = objs w
   \<and> dtor_log (swap_ov a b w) = dtor_log w
   \<and> os_trace (swap_ov a b w) = os_trace w"
  by (simp add: swap_ov_eq)

text \<open>
  \<^verbatim>\<open>pop_back\<close> on a container that is not empty lowers the size by exactly one and invokes
  the destructor once, on the element that was last; capacity and base pointer stay.
\<close>

theorem pop_back_destroys_last:
  assumes "size_m (vecs w a) \<noteq> 0"
  shows "unat (size_m (vecs (pop_back T a w) a)) = unat (size_m (vecs w a)) - 1
         \<and> dtor_log (pop_back T a w) = dtor_log w @ [back_addr T a w]
         \<and> objs (pop_back T a w) (back_addr T a w) = None
         \<and> memory (vecs (pop_back T a w) a) = memory (vecs w a)
         \<and> max_size (vecs (pop_back T a w) a) = max_size (vecs w a)"
proof -
  have "unat (size_m (vecs w a) - 1) = unat (size_m (vecs w a)) - 1"
    using assms by (rule unat_minus_one)
  then show ?thesis
    by (simp add: pop_back_def uninitialized_shrink_back_by_def set_size_def destroy_at_def
          back_addr_def Let_def)
qed

theorem pop_back_destroys_last_witness:
  "size_m (vecs two_vec_world 1) \<noteq> 0
   \<and> unat (size_m (vecs (pop_back int_traits 1 two_vec_world) 1)) = 1
   \<and> dtor_log (pop_back int_traits 1 two_vec_world) = [135160]"
proof -
  have f: "vecs two_vec_world (Suc 0) = \<lparr>memory = 135156, size_m = 2, max_size = 3\<rparr>"
    "dtor_log two_vec_world = []"
    by (simp_all add: two_vec_world_def)
  have n: "size_m (vecs two_vec_world 1) \<noteq> 0" by (simp add: f)
  from pop_back_destroys_last [OF n, of int_traits] show ?thesis
    using n by (simp add: f back_addr_def int_traits_def)
qed

end
